theory Spec2Isabelle
  imports Main
begin

section \<open>Shared data model\<close>

text \<open>
  Instants are the naive UTC datetimes of the source (\<^verbatim>\<open>datetime.utcnow()\<close>), modelled as
  integers (a count of microseconds); only their order matters. Python integers are
  \<^typ>\<open>int\<close>, Python strings are \<^typ>\<open>string\<close>, a nullable column is an option.
\<close>

type_synonym datetime = int

datatype error =
    HTTPException nat string   \<comment> \<open>status code and detail\<close>
  | KeyError string
  | OverflowError

text \<open>
  Modelled from the spec: the row type \<^verbatim>\<open>CoinsLedger\<close> of \<^verbatim>\<open>app.models.economy\<close>, which is
  not among the sources. Fields as section 3 (LedgerEntry) lists them and as
  \<^verbatim>\<open>add_ledger_entry\<close> fills them in.
\<close>

record CoinsLedger =
  cl_id :: int
  cl_user_id :: int
  cl_delta :: int
  cl_source :: string
  cl_ref_id :: "int option"
  cl_idempotency_key :: "string option"
  cl_created_at :: datetime

text \<open>
  Modelled from the spec: the row type \<^verbatim>\<open>User\<close> of \<^verbatim>\<open>app.models.user\<close>, which is not among
  the sources. The fields are those the two routers read and write.
\<close>

record User =
  u_id :: int
  u_status :: string
  u_auth_provider :: string
  u_google_sub :: "string option"
  u_email :: "string option"
  u_device_id :: "string option"
  u_created_at :: datetime
  u_last_login_at :: "datetime option"

text \<open>\<^verbatim>\<open>class RefreshToken(Base)\<close> of \<^verbatim>\<open>app/models/refresh_token.py\<close>.\<close>

record RefreshToken =
  rt_id :: int
  rt_user_id :: int
  rt_token_hash :: string
  rt_expires_at :: datetime
  rt_revoked_at :: "datetime option"
  rt_created_at :: datetime
  rt_created_ip :: "string option"
  rt_created_user_agent :: "string option"

text \<open>
  The database behind a \<^verbatim>\<open>Session\<close>: one list of rows per table, in insertion order.
  \<^verbatim>\<open>.first()\<close> on a filtered query is \<^const>\<open>find\<close> on that list.
\<close>

record Session =
  users :: "User list"
  refresh_tokens :: "RefreshToken list"
  coins_ledger :: "CoinsLedger list"

text \<open>
  Autoincrement primary keys: the next key is larger than every key in the table.
\<close>

definition next_id :: "int list \<Rightarrow> int" where
  "next_id ids = foldr max ids 0 + 1"

text \<open>Python truthiness of an \<^verbatim>\<open>str | None\<close> value: \<^verbatim>\<open>None\<close> and \<^verbatim>\<open>""\<close> are falsy.\<close>

fun truthy :: "string option \<Rightarrow> bool" where
  "truthy None = False"
| "truthy (Some s) = (s \<noteq> [])"

section \<open>app/services/ledger.py\<close>

text \<open>SQL \<^verbatim>\<open>SUM\<close> over a column: \<^verbatim>\<open>NULL\<close> on no rows.\<close>

definition sql_sum :: "int list \<Rightarrow> int option" where
  "sql_sum xs = (if xs = [] then None else Some (sum_list xs))"

definition coalesce :: "int option \<Rightarrow> int \<Rightarrow> int" where
  "coalesce v d = (case v of None \<Rightarrow> d | Some x \<Rightarrow> x)"

definition get_coins_balance :: "Session \<Rightarrow> int \<Rightarrow> int" where
  "get_coins_balance db user_id =
     (let total = coalesce
            (sql_sum (map cl_delta (filter (\<lambda>r. cl_user_id r = user_id) (coins_ledger db)))) 0
      in (if total \<noteq> 0 then total else 0))"

text \<open>
  \<^verbatim>\<open>add_ledger_entry\<close>. The first argument is the value of \<^verbatim>\<open>datetime.utcnow()\<close> at the
  insert. The result is the returned integer and the database after the call.
\<close>

definition add_ledger_entry ::
  "datetime \<Rightarrow> Session \<Rightarrow> int \<Rightarrow> int \<Rightarrow> string \<Rightarrow> int option \<Rightarrow> string option
     \<Rightarrow> int \<times> Session" where
  "add_ledger_entry utcnow db user_id delta source ref_id idempotency_key =
     (let exists0 = None;
          exists1 =
            (if truthy idempotency_key
             then find (\<lambda>r. cl_user_id r = user_id
                           \<and> cl_idempotency_key r = idempotency_key) (coins_ledger db)
             else exists0);
          exists2 =
            (if exists1 = None \<and> ref_id \<noteq> None
             then find (\<lambda>r. cl_user_id r = user_id \<and> cl_source r = source
                           \<and> cl_ref_id r = ref_id) (coins_ledger db)
             else exists1)
      in case exists2 of
           Some row \<Rightarrow> (cl_delta row, db)
         | None \<Rightarrow>
             (delta,
              db\<lparr>coins_ledger := coins_ledger db @
                 [\<lparr>cl_id = next_id (map cl_id (coins_ledger db)),
                   cl_user_id = user_id,
                   cl_delta = delta,
                   cl_source = source,
                   cl_ref_id = ref_id,
                   cl_idempotency_key = idempotency_key,
                   cl_created_at = utcnow\<rparr>]\<rparr>))"

section \<open>app/services/chicken\_status.py\<close>

text \<open>
  A \<^verbatim>\<open>datetime.date\<close> is its proleptic Gregorian ordinal (\<^verbatim>\<open>date.toordinal()\<close>):
  \<^verbatim>\<open>date.min\<close> (0001-01-01) is 1 and \<^verbatim>\<open>date.max\<close> (9999-12-31) is 3652059. Subtracting
  \<^verbatim>\<open>timedelta(days=1)\<close> from \<^verbatim>\<open>date.min\<close> raises \<^verbatim>\<open>OverflowError\<close>.
\<close>

type_synonym date = int

definition date_min :: date where
  "date_min = 1"

definition date_max :: date where
  "date_max = 3652059"

definition minus_one_day :: "date \<Rightarrow> error + date" where
  "minus_one_day cur = (if cur - 1 < date_min then Inl OverflowError else Inr (cur - 1))"

text \<open>The \<^verbatim>\<open>while cur in activity_dates\<close> loop of \<^verbatim>\<open>calc_current_streak\<close>.\<close>

function streak_loop :: "date set \<Rightarrow> date \<Rightarrow> int \<Rightarrow> error + int" where
  "streak_loop activity_dates cur streak =
     (if cur \<in> activity_dates
      then (case minus_one_day cur of
              Inl e \<Rightarrow> Inl e
            | Inr cur' \<Rightarrow> streak_loop activity_dates cur' (streak + 1))
      else Inr streak)"
  by pat_completeness auto
termination
  by (relation "measure (\<lambda>(activity_dates, cur, streak). nat cur)")
     (auto simp add: minus_one_day_def date_min_def split: if_splits)

text \<open>
  \<^verbatim>\<open>calc_current_streak\<close>; the first argument is \<^verbatim>\<open>datetime.utcnow().date()\<close>.
\<close>

definition calc_current_streak :: "date \<Rightarrow> date set \<Rightarrow> error + int" where
  "calc_current_streak today activity_dates =
     (if activity_dates = {} then Inr 0 else streak_loop activity_dates today 0)"

section \<open>Collaborators of the routers\<close>

text \<open>
  Modelled from the spec: \<^verbatim>\<open>app.core.security\<close> and the Google verifier are not among the
  sources, so they are parameters. \<^verbatim>\<open>hash_refresh_token\<close> and \<^verbatim>\<open>create_access_token\<close> are
  functions of their arguments; \<^verbatim>\<open>verify_oauth2_token\<close> returns the claims of an assertion
  or \<^verbatim>\<open>None\<close> where the library raises. The claims dictionary is read at three keys; an
  absent key is \<^verbatim>\<open>None\<close>.
\<close>

record claims =
  c_sub :: "string option"
  c_email :: "string option"
  c_email_verified :: "bool option"

record externals =
  hash_refresh_token :: "string \<Rightarrow> string"
  create_access_token :: "int \<Rightarrow> bool \<Rightarrow> string \<times> int \<times> datetime"
  verify_oauth2_token :: "string \<Rightarrow> claims option"

text \<open>
  What one request reads from its surroundings: the clock (\<^verbatim>\<open>datetime.utcnow()\<close>), the
  secret drawn by \<^verbatim>\<open>generate_refresh_token()\<close> and the pair returned by
  \<^verbatim>\<open>refresh_token_expiry()\<close>.
\<close>

record ambient =
  utcnow :: datetime
  generate_refresh_token :: string
  refresh_token_expiry :: "datetime \<times> int"

text \<open>The two parts of the HTTP request the routers read.\<close>

record Request =
  client_host :: "string option"
  user_agent :: "string option"

definition created_user_agent :: "Request \<Rightarrow> string" where
  "created_user_agent request =
     take 255 (case user_agent request of None \<Rightarrow> [] | Some ua \<Rightarrow> ua)"

section \<open>app/routers/auth\_refresh.py\<close>

record RefreshIn =
  ri_refresh_token :: string

record RefreshOut =
  ro_access_token :: string
  ro_access_token_expires_in :: int
  ro_refresh_token :: string
  ro_refresh_token_expires_in :: int

text \<open>
  \<^verbatim>\<open>refresh_token\<close>, lines 33 to 53: the lookup by hash, the usability test and the lookup
  of the owning user. Nothing is written.
\<close>

definition refresh_token_check ::
  "externals \<Rightarrow> datetime \<Rightarrow> RefreshIn \<Rightarrow> Session \<Rightarrow> error + (RefreshToken \<times> User \<times> bool)" where
  "refresh_token_check ext now payload db =
     (let old_hash = hash_refresh_token ext (ri_refresh_token payload) in
      case find (\<lambda>r. rt_token_hash r = old_hash) (refresh_tokens db) of
        None \<Rightarrow> Inl (HTTPException 401 ''Invalid refresh token'')
      | Some old_rt \<Rightarrow>
          if rt_revoked_at old_rt \<noteq> None \<or> rt_expires_at old_rt \<le> now
          then Inl (HTTPException 401 ''Invalid refresh token'')
          else (case find (\<lambda>u. u_id u = rt_user_id old_rt) (users db) of
                  None \<Rightarrow> Inl (HTTPException 401 ''User not found'')
                | Some user \<Rightarrow> Inr (old_rt, user, u_status user = ''guest'')))"

text \<open>
  Lines 56 and 57: \<^verbatim>\<open>old_rt.revoked_at = now; db.commit()\<close>. The flush is an update of the
  row with the primary key of \<^verbatim>\<open>old_rt\<close>.
\<close>

definition refresh_token_revoke :: "datetime \<Rightarrow> RefreshToken \<Rightarrow> Session \<Rightarrow> Session" where
  "refresh_token_revoke now old_rt db =
     db\<lparr>refresh_tokens :=
          map (\<lambda>r. if rt_id r = rt_id old_rt then r\<lparr>rt_revoked_at := Some now\<rparr> else r)
              (refresh_tokens db)\<rparr>"

text \<open>
  Lines 59 to 87: the new row, its commit, the access token and the response.
\<close>

definition refresh_token_issue ::
  "externals \<Rightarrow> ambient \<Rightarrow> Request \<Rightarrow> User \<Rightarrow> bool \<Rightarrow> Session \<Rightarrow> RefreshOut \<times> Session" where
  "refresh_token_issue ext amb request user is_guest db =
     (let new_rt_plain = generate_refresh_token amb;
          new_rt_hash = hash_refresh_token ext new_rt_plain;
          new_expires_at = fst (refresh_token_expiry amb);
          new_expires_in = snd (refresh_token_expiry amb);
          created_ip = client_host request;
          ua = created_user_agent request;
          new_rt = \<lparr>rt_id = next_id (map rt_id (refresh_tokens db)),
                    rt_user_id = u_id user,
                    rt_token_hash = new_rt_hash,
                    rt_expires_at = new_expires_at,
                    rt_revoked_at = None,
                    rt_created_at = utcnow amb,
                    rt_created_ip = created_ip,
                    rt_created_user_agent = Some ua\<rparr>;
          db' = db\<lparr>refresh_tokens := refresh_tokens db @ [new_rt]\<rparr>;
          at = fst (create_access_token ext (u_id user) is_guest);
          at_expires_in = fst (snd (create_access_token ext (u_id user) is_guest))
      in (\<lparr>ro_access_token = at,
           ro_access_token_expires_in = at_expires_in,
           ro_refresh_token = new_rt_plain,
           ro_refresh_token_expires_in = new_expires_in\<rparr>, db'))"

text \<open>
  The handler of \<^verbatim>\<open>POST /refresh\<close> run on its own: the three parts in order. The result is
  the response or the raised exception, and the database afterwards.
\<close>

definition refresh_token ::
  "externals \<Rightarrow> ambient \<Rightarrow> RefreshIn \<Rightarrow> Request \<Rightarrow> Session \<Rightarrow> (error + RefreshOut) \<times> Session" where
  "refresh_token ext amb payload request db =
     (case refresh_token_check ext (utcnow amb) payload db of
        Inl e \<Rightarrow> (Inl e, db)
      | Inr (old_rt, user, is_guest) \<Rightarrow>
          (let db1 = refresh_token_revoke (utcnow amb) old_rt db;
               (out, db2) = refresh_token_issue ext amb request user is_guest db1
           in (Inr out, db2)))"


text \<open>
  The spec's wording of section 3, for comparison with the test the handler makes: a token is
  usable iff \<^verbatim>\<open>revoked_at\<close> is null and \<^verbatim>\<open>expires_at\<close> is in the future.
\<close>

definition usable_spec :: "datetime \<Rightarrow> RefreshToken \<Rightarrow> bool" where
  "usable_spec now rt \<longleftrightarrow> rt_revoked_at rt = None \<and> now < rt_expires_at rt"

section \<open>app/routers/auth\_google.py\<close>

record GoogleAuthIn =
  gi_id_token :: string
  gi_device_id :: "string option"

record GoogleAuthOut =
  go_user_id :: int
  go_access_token :: string
  go_expires_in :: int
  go_is_guest :: bool
  go_refresh_token :: string
  go_refresh_expires_in :: int

text \<open>\<^verbatim>\<open>verify_google_token\<close>; the first argument is the library's verifier.\<close>

definition verify_google_token :: "(string \<Rightarrow> claims option) \<Rightarrow> string \<Rightarrow> error + claims" where
  "verify_google_token verifier token =
     (case verifier token of
        None \<Rightarrow> Inl (HTTPException 401 ''Invalid Google id_token'')
      | Some info \<Rightarrow>
          if \<not> truthy (c_email info)
          then Inl (HTTPException 401 ''Google token missing email'')
          else if c_email_verified info = Some False
          then Inl (HTTPException 401 ''Google email not verified'')
          else if \<not> truthy (c_sub info)
          then Inl (HTTPException 401 ''Google token missing sub'')
          else Inr info)"

text \<open>
  The flush of a changed \<^verbatim>\<open>User\<close> object (an update of the row with its primary key) and
  \<^verbatim>\<open>db.add\<close> of a new one.
\<close>

definition update_user :: "User \<Rightarrow> Session \<Rightarrow> Session" where
  "update_user user db =
     db\<lparr>users := map (\<lambda>u. if u_id u = u_id user then user else u) (users db)\<rparr>"

definition add_user :: "User \<Rightarrow> Session \<Rightarrow> Session" where
  "add_user user db = db\<lparr>users := users db @ [user]\<rparr>"

text \<open>
  \<^verbatim>\<open>google_auth\<close>, lines 86 to 151: the account the verified subject id and email resolve
  to, and the database with that account written. On the conflict nothing has been written
  when the exception is raised.
\<close>

definition google_auth_user ::
  "datetime \<Rightarrow> string \<Rightarrow> string \<Rightarrow> GoogleAuthIn \<Rightarrow> Session \<Rightarrow> error + (User \<times> Session)" where
  "google_auth_user now google_sub email payload db =
     (case find (\<lambda>u. u_google_sub u = Some google_sub) (users db) of
        None \<Rightarrow>
          if truthy (gi_device_id payload)
          then (case find (\<lambda>u. u_device_id u = gi_device_id payload \<and> u_status u = ''guest'')
                          (users db) of
                  Some guest \<Rightarrow>
                    (let email_owner =
                           find (\<lambda>u. u_email u = Some email \<and> u_id u \<noteq> u_id guest) (users db)
                     in if (case email_owner of
                              None \<Rightarrow> False
                            | Some owner \<Rightarrow> u_google_sub owner \<noteq> Some google_sub)
                        then Inl (HTTPException 409 ''Email already in use by another account'')
                        else
                          (let user = guest\<lparr>u_google_sub := Some google_sub,
                                            u_email := Some email,
                                            u_status := ''user'',
                                            u_auth_provider := ''google'',
                                            u_last_login_at := Some now\<rparr>
                           in Inr (user, update_user user db)))
                | None \<Rightarrow>
                    (let user = \<lparr>u_id = next_id (map u_id (users db)),
                                 u_status = ''user'',
                                 u_auth_provider = ''google'',
                                 u_google_sub = Some google_sub,
                                 u_email = Some email,
                                 u_device_id = gi_device_id payload,
                                 u_created_at = now,
                                 u_last_login_at = Some now\<rparr>
                     in Inr (user, add_user user db)))
          else
            (let user = \<lparr>u_id = next_id (map u_id (users db)),
                         u_status = ''user'',
                         u_auth_provider = ''google'',
                         u_google_sub = Some google_sub,
                         u_email = Some email,
                         u_device_id = None,
                         u_created_at = now,
                         u_last_login_at = Some now\<rparr>
             in Inr (user, add_user user db))
      | Some bound \<Rightarrow>
          (let user1 = bound\<lparr>u_last_login_at := Some now\<rparr>;
               user2 = (if \<not> truthy (u_email user1) then user1\<lparr>u_email := Some email\<rparr>
                        else user1);
               user3 = (if u_status user2 \<noteq> ''user'' then user2\<lparr>u_status := ''user''\<rparr>
                        else user2);
               user4 = (if u_auth_provider user3 \<noteq> ''google''
                        then user3\<lparr>u_auth_provider := ''google''\<rparr> else user3)
           in Inr (user4, update_user user4 db)))"

text \<open>
  \<^verbatim>\<open>google_auth\<close>, lines 153 to 183: the access token, the refresh-token row and its commit,
  and the response.
\<close>

definition google_auth_issue ::
  "externals \<Rightarrow> ambient \<Rightarrow> Request \<Rightarrow> User \<Rightarrow> Session \<Rightarrow> GoogleAuthOut \<times> Session" where
  "google_auth_issue ext amb request user db =
     (let access_token = fst (create_access_token ext (u_id user) False);
          expires_in = fst (snd (create_access_token ext (u_id user) False));
          rt_plain = generate_refresh_token amb;
          rt_hash = hash_refresh_token ext rt_plain;
          rt_expires_at = fst (refresh_token_expiry amb);
          rt_expires_in = snd (refresh_token_expiry amb);
          created_ip = client_host request;
          ua = created_user_agent request;
          rt_row = \<lparr>rt_id = next_id (map rt_id (refresh_tokens db)),
                    rt_user_id = u_id user,
                    rt_token_hash = rt_hash,
                    rt_expires_at = rt_expires_at,
                    rt_revoked_at = None,
                    rt_created_at = utcnow amb,
                    rt_created_ip = created_ip,
                    rt_created_user_agent = Some ua\<rparr>;
          db' = db\<lparr>refresh_tokens := refresh_tokens db @ [rt_row]\<rparr>
      in (\<lparr>go_user_id = u_id user,
           go_access_token = access_token,
           go_expires_in = expires_in,
           go_is_guest = False,
           go_refresh_token = rt_plain,
           go_refresh_expires_in = rt_expires_in\<rparr>, db'))"

text \<open>
  The handler of \<^verbatim>\<open>POST /auth/google\<close>. \<^verbatim>\<open>info["sub"]\<close> and \<^verbatim>\<open>info["email"]\<close> raise
  \<^verbatim>\<open>KeyError\<close> on an absent key. The second argument \<open>lower_strip\<close> stands for Python's
  \<^verbatim>\<open>s.lower().strip()\<close> of line 84: both built-ins follow the Unicode tables (case mappings
  and white space of every script), which are not part of the source, so the normalisation
  is a parameter and every property below holds for whatever it computes.
\<close>

definition google_auth ::
  "externals \<Rightarrow> (string \<Rightarrow> string) \<Rightarrow> ambient \<Rightarrow> GoogleAuthIn \<Rightarrow> Request \<Rightarrow> Session
     \<Rightarrow> (error + GoogleAuthOut) \<times> Session" where
  "google_auth ext lower_strip amb payload request db =
     (let now = utcnow amb in
      case verify_google_token (verify_oauth2_token ext) (gi_id_token payload) of
        Inl e \<Rightarrow> (Inl e, db)
      | Inr info \<Rightarrow>
          (case c_sub info of
             None \<Rightarrow> (Inl (KeyError ''sub''), db)
           | Some google_sub \<Rightarrow>
               (case c_email info of
                  None \<Rightarrow> (Inl (KeyError ''email''), db)
                | Some raw_email \<Rightarrow>
                    (let email = lower_strip raw_email in
                     case google_auth_user now google_sub email payload db of
                       Inl e \<Rightarrow> (Inl e, db)
                     | Inr (user, db1) \<Rightarrow>
                         (let (out, db2) = google_auth_issue ext amb request user db1
                          in (Inr out, db2))))))"

text \<open>
  What a token just issued looks like in the table: the presented plaintext finds an active
  row with the expiry of the issuance, whose account exists.
\<close>

definition issued :: "externals \<Rightarrow> ambient \<Rightarrow> string \<Rightarrow> Session \<Rightarrow> bool" where
  "issued ext amb plain db =
     (case find (\<lambda>r. rt_token_hash r = hash_refresh_token ext plain) (refresh_tokens db) of
        None \<Rightarrow> False
      | Some row \<Rightarrow>
          rt_revoked_at row = None
          \<and> rt_expires_at row = fst (refresh_token_expiry amb)
          \<and> find (\<lambda>u. u_id u = rt_user_id row) (users db) \<noteq> None)"

section \<open>Two overlapping calls of the refresh handler\<close>

text \<open>
  Each request has its own \<^verbatim>\<open>Session\<close> and runs in its own worker. The handler touches the
  database three times: the two queries and the usability test (nothing written), the
  commit of \<^verbatim>\<open>revoked_at\<close> (line 57), and the commit of the new row (line 77). A call is
  therefore three atomic steps, and two calls overlap by interleaving their steps; each step
  sees what was committed before it. The control state of a call holds the objects it has
  loaded.
\<close>

datatype refresh_pc =
    Started
  | Checked RefreshToken User bool
  | Revoked User bool
  | Returned RefreshOut
  | Raised error

record refresh_call =
  call_amb :: ambient
  call_payload :: RefreshIn
  call_request :: Request

fun refresh_token_step ::
  "externals \<Rightarrow> refresh_call \<Rightarrow> refresh_pc \<Rightarrow> Session \<Rightarrow> refresh_pc \<times> Session" where
  "refresh_token_step ext c Started db =
     (case refresh_token_check ext (utcnow (call_amb c)) (call_payload c) db of
        Inl e \<Rightarrow> (Raised e, db)
      | Inr (old_rt, user, is_guest) \<Rightarrow> (Checked old_rt user is_guest, db))"
| "refresh_token_step ext c (Checked old_rt user is_guest) db =
     (Revoked user is_guest, refresh_token_revoke (utcnow (call_amb c)) old_rt db)"
| "refresh_token_step ext c (Revoked user is_guest) db =
     (Returned (fst (refresh_token_issue ext (call_amb c) (call_request c) user is_guest db)),
      snd (refresh_token_issue ext (call_amb c) (call_request c) user is_guest db))"
| "refresh_token_step ext c (Returned out) db = (Returned out, db)"
| "refresh_token_step ext c (Raised e) db = (Raised e, db)"

datatype caller = First | Second

fun run_schedule ::
  "externals \<Rightarrow> refresh_call \<Rightarrow> refresh_call \<Rightarrow> caller list
     \<Rightarrow> refresh_pc \<times> refresh_pc \<times> Session \<Rightarrow> refresh_pc \<times> refresh_pc \<times> Session" where
  "run_schedule ext a b [] st = st"
| "run_schedule ext a b (First # sched) (pa, pb, db) =
     run_schedule ext a b sched
       (fst (refresh_token_step ext a pa db), pb, snd (refresh_token_step ext a pa db))"
| "run_schedule ext a b (Second # sched) (pa, pb, db) =
     run_schedule ext a b sched
       (pa, fst (refresh_token_step ext b pb db), snd (refresh_token_step ext b pb db))"

text \<open>
  Bookkeeping for the proofs: a call that has passed the test, the steps it has left, and a
  table in which the row found for a hash is revoked.
\<close>

fun passed :: "refresh_pc \<Rightarrow> bool" where
  "passed (Checked old_rt user is_guest) = True"
| "passed (Revoked user is_guest) = True"
| "passed (Returned out) = True"
| "passed pc = False"

fun steps_left :: "refresh_pc \<Rightarrow> nat" where
  "steps_left Started = 3"
| "steps_left (Checked old_rt user is_guest) = 2"
| "steps_left (Revoked user is_guest) = 1"
| "steps_left pc = 0"

definition revoked_in :: "string \<Rightarrow> Session \<Rightarrow> bool" where
  "revoked_in h db =
     (case find (\<lambda>r. rt_token_hash r = h) (refresh_tokens db) of
        None \<Rightarrow> False
      | Some r \<Rightarrow> rt_revoked_at r \<noteq> None)"

section \<open>Properties of the ledger writer\<close>

lemma find_None_iff2: "(find P xs = None) = (\<forall>x\<in>set xs. \<not> P x)"
  by (induction xs) auto

lemma find_snoc:
  "find P (xs @ [x]) = (case find P xs of Some y \<Rightarrow> Some y | None \<Rightarrow> if P x then Some x else None)"
  by (induction xs) auto

lemma add_ledger_entry_retry_same_db:
  assumes "truthy k \<or> ref \<noteq> None"
  shows "snd (add_ledger_entry t2 (snd (add_ledger_entry t1 db u d s ref k)) u d2 s ref k)
           = snd (add_ledger_entry t1 db u d s ref k)"
proof (cases "truthy k")
  case True
  then show ?thesis
    by (cases ref)
       (auto simp add: add_ledger_entry_def Let_def find_snoc split: option.splits)
next
  case False
  with assms have "ref \<noteq> None" by simp
  with False show ?thesis
    by (auto simp add: add_ledger_entry_def Let_def find_snoc split: option.splits)
qed

text \<open>
  Claim C4. A first call of \<^const>\<open>add_ledger_entry\<close> for an account, source and reference id
  that the ledger does not hold yet (and, when an idempotency key is given, a key the account
  has not used) returns the requested delta. A second call with the same account, source,
  reference id and key returns that stored delta again, whatever delta and clock it is given,
  and changes nothing: the ledger holds exactly one row for the account, source and
  reference id.
\<close>

theorem ledger_retry_returns_stored_delta:
  assumes fresh_ref: "\<forall>r\<in>set (coins_ledger db).
             \<not> (cl_user_id r = u \<and> cl_source r = s \<and> cl_ref_id r = Some ref)"
      and fresh_key: "\<forall>r\<in>set (coins_ledger db).
             \<not> (truthy k \<and> cl_user_id r = u \<and> cl_idempotency_key r = k)"
  shows "\<exists>db1. add_ledger_entry t1 db u d s (Some ref) k = (d, db1)
           \<and> add_ledger_entry t2 db1 u d2 s (Some ref) k = (d, db1)
           \<and> length (filter (\<lambda>r. cl_user_id r = u \<and> cl_source r = s \<and> cl_ref_id r = Some ref)
                 (coins_ledger db1)) = 1"
proof -
  let ?refm = "\<lambda>r. cl_user_id r = u \<and> cl_source r = s \<and> cl_ref_id r = Some ref"
  let ?keym = "\<lambda>r. cl_user_id r = u \<and> cl_idempotency_key r = k"
  have r0: "find ?refm (coins_ledger db) = None"
    using fresh_ref by (simp add: find_None_iff2)
  have k0: "truthy k \<Longrightarrow> find ?keym (coins_ledger db) = None"
    using fresh_key by (simp add: find_None_iff2)
  have f0: "filter ?refm (coins_ledger db) = []"
    using fresh_ref by (simp add: filter_empty_conv)
  show ?thesis
    using r0 k0 f0
    by (cases "truthy k") (simp_all add: add_ledger_entry_def Let_def find_snoc)
qed

theorem ledger_retry_witness:
  "add_ledger_entry 100 \<lparr>users = [], refresh_tokens = [], coins_ledger = []\<rparr> 7 10 ''checkin'' (Some 5) None
     = (10, \<lparr>users = [], refresh_tokens = [], coins_ledger =
          [\<lparr>cl_id = 1, cl_user_id = 7, cl_delta = 10, cl_source = ''checkin'', cl_ref_id = Some 5,
            cl_idempotency_key = None, cl_created_at = 100\<rparr>]\<rparr>)
   \<and> add_ledger_entry 200 \<lparr>users = [], refresh_tokens = [], coins_ledger =
          [\<lparr>cl_id = 1, cl_user_id = 7, cl_delta = 10, cl_source = ''checkin'', cl_ref_id = Some 5,
            cl_idempotency_key = None, cl_created_at = 100\<rparr>]\<rparr> 7 10 ''checkin'' (Some 5) None
     = (10, \<lparr>users = [], refresh_tokens = [], coins_ledger =
          [\<lparr>cl_id = 1, cl_user_id = 7, cl_delta = 10, cl_source = ''checkin'', cl_ref_id = Some 5,
            cl_idempotency_key = None, cl_created_at = 100\<rparr>]\<rparr>)"
  using ledger_retry_returns_stored_delta
    [of "\<lparr>users = [], refresh_tokens = [], coins_ledger = []\<rparr>" 7 "''checkin''" 5 None 100 10 200 10]
  by (simp add: add_ledger_entry_def next_id_def)

text \<open>
  Claim C5, as stated, fails: two calls with the distinct keys \<open>k1\<close> and \<open>k2\<close> but the same
  source and reference id leave one row, and the second call returns the delta of the first.
  The lookup by source and reference id runs whenever the lookup by key found nothing, not
  only when no key was given.
\<close>

theorem distinct_keys_collapse_counterexample:
  "add_ledger_entry 100 \<lparr>users = [], refresh_tokens = [], coins_ledger = []\<rparr>
       7 10 ''checkin'' (Some 5) (Some ''k1'')
     = (10, \<lparr>users = [], refresh_tokens = [], coins_ledger =
          [\<lparr>cl_id = 1, cl_user_id = 7, cl_delta = 10, cl_source = ''checkin'', cl_ref_id = Some 5,
            cl_idempotency_key = Some ''k1'', cl_created_at = 100\<rparr>]\<rparr>)
   \<and> add_ledger_entry 200 \<lparr>users = [], refresh_tokens = [], coins_ledger =
          [\<lparr>cl_id = 1, cl_user_id = 7, cl_delta = 10, cl_source = ''checkin'', cl_ref_id = Some 5,
            cl_idempotency_key = Some ''k1'', cl_created_at = 100\<rparr>]\<rparr>
       7 20 ''checkin'' (Some 5) (Some ''k2'')
     = (10, \<lparr>users = [], refresh_tokens = [], coins_ledger =
          [\<lparr>cl_id = 1, cl_user_id = 7, cl_delta = 10, cl_source = ''checkin'', cl_ref_id = Some 5,
            cl_idempotency_key = Some ''k1'', cl_created_at = 100\<rparr>]\<rparr>)"
  by (simp add: add_ledger_entry_def next_id_def)

text \<open>
  Claim C5, amended. Two calls for one account with distinct non-null idempotency keys that
  the account has not used each insert their own row and return their own delta, provided
  that neither call's source and reference id (when the reference id is not null) is in the
  ledger already and that the second call's reference id is null or its source and reference
  id differ from the first call's.
\<close>

theorem distinct_keys_distinct_rows:
  assumes keys: "k1 \<noteq> k2"
      and fresh_k1: "\<forall>r\<in>set (coins_ledger db).
             \<not> (cl_user_id r = u \<and> cl_idempotency_key r = Some k1)"
      and fresh_k2: "\<forall>r\<in>set (coins_ledger db).
             \<not> (cl_user_id r = u \<and> cl_idempotency_key r = Some k2)"
      and fresh_r1: "\<forall>r\<in>set (coins_ledger db).
             \<not> (ref1 \<noteq> None \<and> cl_user_id r = u \<and> cl_source r = s1 \<and> cl_ref_id r = ref1)"
      and fresh_r2: "\<forall>r\<in>set (coins_ledger db).
             \<not> (ref2 \<noteq> None \<and> cl_user_id r = u \<and> cl_source r = s2 \<and> cl_ref_id r = ref2)"
      and refs: "ref2 = None \<or> s1 \<noteq> s2 \<or> ref1 \<noteq> ref2"
  shows "\<exists>db1 db2 i1 i2.
           add_ledger_entry t1 db u d1 s1 ref1 (Some k1) = (d1, db1)
         \<and> add_ledger_entry t2 db1 u d2 s2 ref2 (Some k2) = (d2, db2)
         \<and> users db2 = users db \<and> refresh_tokens db2 = refresh_tokens db
         \<and> coins_ledger db2 = coins_ledger db @
              [\<lparr>cl_id = i1, cl_user_id = u, cl_delta = d1, cl_source = s1, cl_ref_id = ref1,
                cl_idempotency_key = Some k1, cl_created_at = t1\<rparr>,
               \<lparr>cl_id = i2, cl_user_id = u, cl_delta = d2, cl_source = s2, cl_ref_id = ref2,
                cl_idempotency_key = Some k2, cl_created_at = t2\<rparr>]"
proof -
  let ?L = "coins_ledger db"
  have a: "find (\<lambda>r. cl_user_id r = u \<and> cl_idempotency_key r = Some k1) ?L = None"
    using fresh_k1 by (simp add: find_None_iff2)
  have b: "find (\<lambda>r. cl_user_id r = u \<and> cl_idempotency_key r = Some k2) ?L = None"
    using fresh_k2 by (simp add: find_None_iff2)
  have c: "ref1 \<noteq> None \<Longrightarrow>
      find (\<lambda>r. cl_user_id r = u \<and> cl_source r = s1 \<and> cl_ref_id r = ref1) ?L = None"
    using fresh_r1 by (simp add: find_None_iff2)
  have d: "ref2 \<noteq> None \<Longrightarrow>
      find (\<lambda>r. cl_user_id r = u \<and> cl_source r = s2 \<and> cl_ref_id r = ref2) ?L = None"
    using fresh_r2 by (simp add: find_None_iff2)
  have first: "add_ledger_entry t1 db u d1 s1 ref1 (Some k1) =
      (d1, db\<lparr>coins_ledger := ?L @
         [\<lparr>cl_id = next_id (map cl_id ?L), cl_user_id = u, cl_delta = d1, cl_source = s1,
           cl_ref_id = ref1, cl_idempotency_key = Some k1, cl_created_at = t1\<rparr>]\<rparr>)"
    using a c by (cases "k1 = []"; cases ref1) (simp_all add: add_ledger_entry_def)
  let ?db1 = "db\<lparr>coins_ledger := ?L @
         [\<lparr>cl_id = next_id (map cl_id ?L), cl_user_id = u, cl_delta = d1, cl_source = s1,
           cl_ref_id = ref1, cl_idempotency_key = Some k1, cl_created_at = t1\<rparr>]\<rparr>"
  have second: "\<exists>i2. add_ledger_entry t2 ?db1 u d2 s2 ref2 (Some k2) =
      (d2, ?db1\<lparr>coins_ledger := coins_ledger ?db1 @
         [\<lparr>cl_id = i2, cl_user_id = u, cl_delta = d2, cl_source = s2,
           cl_ref_id = ref2, cl_idempotency_key = Some k2, cl_created_at = t2\<rparr>]\<rparr>)"
    using b d keys refs
    by (cases "k2 = []"; cases ref2) (auto simp add: add_ledger_entry_def find_snoc)
  from first second show ?thesis by auto
qed

theorem distinct_keys_witness:
  "\<exists>db1 db2 i1 i2.
     add_ledger_entry 100 \<lparr>users = [], refresh_tokens = [], coins_ledger = []\<rparr>
        7 10 ''checkin'' (Some 5) (Some ''k1'') = (10, db1)
   \<and> add_ledger_entry 200 db1 7 20 ''checkin'' (Some 6) (Some ''k2'') = (20, db2)
   \<and> users db2 = [] \<and> refresh_tokens db2 = []
   \<and> coins_ledger db2 =
        [\<lparr>cl_id = i1, cl_user_id = 7, cl_delta = 10, cl_source = ''checkin'', cl_ref_id = Some 5,
          cl_idempotency_key = Some ''k1'', cl_created_at = 100\<rparr>,
         \<lparr>cl_id = i2, cl_user_id = 7, cl_delta = 20, cl_source = ''checkin'', cl_ref_id = Some 6,
          cl_idempotency_key = Some ''k2'', cl_created_at = 200\<rparr>]"
  using distinct_keys_distinct_rows
    [of "''k1''" "''k2''" "\<lparr>users = [], refresh_tokens = [], coins_ledger = []\<rparr>" 7
        "Some 5" "''checkin''" "Some 6" "''checkin''" 100 10 200 20]
  by simp

text \<open>
  Claim C6. The balance \<^const>\<open>get_coins_balance\<close> returns is the sum of the deltas of the
  account's rows, 0 when it has none; and it is the same after a retried award call (a second
  call with the same account, source, reference id and key, at least one of the latter two
  being supplied) as after the first.
\<close>

theorem balance_is_sum_of_deltas:
  "get_coins_balance db u
      = sum_list (map cl_delta (filter (\<lambda>r. cl_user_id r = u) (coins_ledger db)))
   \<and> ((\<forall>r\<in>set (coins_ledger db). cl_user_id r \<noteq> u) \<longrightarrow> get_coins_balance db u = 0)
   \<and> (truthy k \<or> ref \<noteq> None \<longrightarrow>
        get_coins_balance
          (snd (add_ledger_entry t2 (snd (add_ledger_entry t1 db a d s ref k)) a d2 s ref k)) u
        = get_coins_balance (snd (add_ledger_entry t1 db a d s ref k)) u)"
proof -
  have sum: "\<And>db'. get_coins_balance db' u
      = sum_list (map cl_delta (filter (\<lambda>r. cl_user_id r = u) (coins_ledger db')))"
    by (simp add: get_coins_balance_def sql_sum_def coalesce_def Let_def)
  have none: "(\<forall>r\<in>set (coins_ledger db). cl_user_id r \<noteq> u) \<longrightarrow> get_coins_balance db u = 0"
    by (simp add: get_coins_balance_def sql_sum_def coalesce_def Let_def filter_empty_conv)
  have retry: "truthy k \<or> ref \<noteq> None \<longrightarrow>
        get_coins_balance
          (snd (add_ledger_entry t2 (snd (add_ledger_entry t1 db a d s ref k)) a d2 s ref k)) u
        = get_coins_balance (snd (add_ledger_entry t1 db a d s ref k)) u"
    using add_ledger_entry_retry_same_db [of k ref t2 t1 db a d s d2] by simp
  from sum none retry show ?thesis by blast
qed

theorem balance_witness:
  "get_coins_balance \<lparr>users = [], refresh_tokens = [], coins_ledger =
          [\<lparr>cl_id = 1, cl_user_id = 7, cl_delta = 10, cl_source = ''checkin'', cl_ref_id = Some 5,
            cl_idempotency_key = None, cl_created_at = 100\<rparr>,
           \<lparr>cl_id = 2, cl_user_id = 8, cl_delta = 4, cl_source = ''run'', cl_ref_id = Some 1,
            cl_idempotency_key = None, cl_created_at = 110\<rparr>,
           \<lparr>cl_id = 3, cl_user_id = 7, cl_delta = -3, cl_source = ''shop'', cl_ref_id = None,
            cl_idempotency_key = Some ''buy-1'', cl_created_at = 120\<rparr>]\<rparr> 7 = 7
   \<and> get_coins_balance \<lparr>users = [], refresh_tokens = [], coins_ledger =
          [\<lparr>cl_id = 1, cl_user_id = 7, cl_delta = 10, cl_source = ''checkin'', cl_ref_id = Some 5,
            cl_idempotency_key = None, cl_created_at = 100\<rparr>,
           \<lparr>cl_id = 2, cl_user_id = 8, cl_delta = 4, cl_source = ''run'', cl_ref_id = Some 1,
            cl_idempotency_key = None, cl_created_at = 110\<rparr>,
           \<lparr>cl_id = 3, cl_user_id = 7, cl_delta = -3, cl_source = ''shop'', cl_ref_id = None,
            cl_idempotency_key = Some ''buy-1'', cl_created_at = 120\<rparr>]\<rparr> 9 = 0
   \<and> get_coins_balance
        (snd (add_ledger_entry 200
          (snd (add_ledger_entry 100 \<lparr>users = [], refresh_tokens = [], coins_ledger = []\<rparr>
                  7 10 ''checkin'' (Some 5) None))
          7 10 ''checkin'' (Some 5) None)) 7 = 10"
  using balance_is_sum_of_deltas
    [of "\<lparr>users = [], refresh_tokens = [], coins_ledger = []\<rparr>" 7 None "Some 5" 200 100 7 10
        "''checkin''" 10]
  by (simp add: add_ledger_entry_def next_id_def get_coins_balance_def sql_sum_def coalesce_def)


section \<open>Properties of the streak count\<close>

lemma streak_loop_overflow:
  "date_min \<le> cur \<Longrightarrow> \<forall>d. date_min \<le> d \<and> d \<le> cur \<longrightarrow> d \<in> S
     \<Longrightarrow> streak_loop S cur streak = Inl OverflowError"
proof (induction S cur streak rule: streak_loop.induct)
  case (1 S cur streak)
  have mem: "cur \<in> S" using "1.prems" by simp
  show ?case
  proof (cases "cur = date_min")
    case True
    with mem show ?thesis by (simp add: minus_one_day_def)
  next
    case False
    with "1.prems" have step: "minus_one_day cur = Inr (cur - 1)" and low: "date_min \<le> cur - 1"
      by (simp_all add: minus_one_day_def)
    have "streak_loop S (cur - 1) (streak + 1) = Inl OverflowError"
      using "1.IH" [OF mem step low] "1.prems" by simp
    with mem step show ?thesis by simp
  qed
qed

lemma streak_loop_counts:
  "date_min \<le> d \<Longrightarrow> d \<le> cur \<Longrightarrow> d \<notin> S
     \<Longrightarrow> \<exists>n. streak_loop S cur streak = Inr (streak + n) \<and> 0 \<le> n
            \<and> (\<forall>k. 0 \<le> k \<and> k < n \<longrightarrow> cur - k \<in> S) \<and> cur - n \<notin> S"
proof (induction S cur streak rule: streak_loop.induct)
  case (1 S cur streak)
  show ?case
  proof (cases "cur \<in> S")
    case False
    then have "streak_loop S cur streak = Inr (streak + 0)" by simp
    with False show ?thesis by (intro exI [of _ 0]) auto
  next
    case True
    with "1.prems" have "d \<noteq> cur" by auto
    with "1.prems" have dlt: "d \<le> cur - 1" by simp
    with "1.prems" have step: "minus_one_day cur = Inr (cur - 1)"
      by (simp add: minus_one_day_def)
    from "1.IH" [OF True step "1.prems"(1) dlt "1.prems"(3)]
    obtain n where n: "streak_loop S (cur - 1) (streak + 1) = Inr (streak + 1 + n)" "0 \<le> n"
        "\<forall>k. 0 \<le> k \<and> k < n \<longrightarrow> cur - 1 - k \<in> S" "cur - 1 - n \<notin> S"
      by blast
    have run: "streak_loop S cur streak = Inr (streak + (n + 1))"
      using True step n(1) by simp
    have all: "\<forall>k. 0 \<le> k \<and> k < n + 1 \<longrightarrow> cur - k \<in> S"
    proof (intro allI impI)
      fix k assume k: "0 \<le> k \<and> k < n + 1"
      show "cur - k \<in> S"
      proof (cases "k = 0")
        case True with \<open>cur \<in> S\<close> show ?thesis by simp
      next
        case False
        with k have "0 \<le> k - 1 \<and> k - 1 < n" by simp
        with n(3) have "cur - 1 - (k - 1) \<in> S" by blast
        then show ?thesis by simp
      qed
    qed
    have stop: "cur - (n + 1) \<notin> S" using n(4) by (simp add: algebra_simps)
    from run n(2) all stop show ?thesis
      by (intro exI [of _ "n + 1"]) auto
  qed
qed

text \<open>
  Claim C10, as stated, fails on the finite set of all dates from \<^verbatim>\<open>date.min\<close> to today
  (ordinal 739924 is 2026-11-04): the loop reaches \<^verbatim>\<open>date.min\<close>, finds it in the set, and the
  subtraction of one more day raises \<^verbatim>\<open>OverflowError\<close>; no count is returned.
\<close>

theorem streak_overflow_counterexample:
  "finite {date_min..739924} \<and> calc_current_streak 739924 {date_min..739924} = Inl OverflowError"
proof -
  have "streak_loop {date_min..739924} 739924 0 = Inl OverflowError"
    by (rule streak_loop_overflow) (simp_all add: date_min_def)
  moreover have "{date_min..739924} \<noteq> {}" by (simp add: date_min_def)
  ultimately show ?thesis by (simp add: calc_current_streak_def)
qed

text \<open>
  Claim C10, amended. For every set \<open>S\<close> of dates that misses at least one date between
  \<^verbatim>\<open>date.min\<close> and today, \<^const>\<open>calc_current_streak\<close> returns the unique \<open>n \<ge> 0\<close> such that
  today, today - 1, ..., today - (n - 1) are all in \<open>S\<close> and today - n is not; it returns 0
  when \<open>S\<close> is empty or today is not in \<open>S\<close>. (The loop is total: \<^const>\<open>streak_loop\<close> is
  defined with its termination proof.)
\<close>

theorem current_streak_counts_back_from_today:
  assumes gap: "\<exists>d. date_min \<le> d \<and> d \<le> today \<and> d \<notin> S"
  shows "\<exists>n. calc_current_streak today S = Inr n \<and> 0 \<le> n
           \<and> (\<forall>k. 0 \<le> k \<and> k < n \<longrightarrow> today - k \<in> S) \<and> today - n \<notin> S
           \<and> (\<forall>m. 0 \<le> m \<and> (\<forall>k. 0 \<le> k \<and> k < m \<longrightarrow> today - k \<in> S) \<and> today - m \<notin> S
                  \<longrightarrow> m = n)
           \<and> (S = {} \<or> today \<notin> S \<longrightarrow> n = 0)"
proof -
  from gap obtain d where d: "date_min \<le> d" "d \<le> today" "d \<notin> S" by blast
  from streak_loop_counts [OF d, of 0]
  obtain n where n: "streak_loop S today 0 = Inr n" "0 \<le> n"
      "\<forall>k. 0 \<le> k \<and> k < n \<longrightarrow> today - k \<in> S" "today - n \<notin> S"
    by auto
  have zero: "S = {} \<or> today \<notin> S \<longrightarrow> n = 0"
  proof (intro impI)
    assume "S = {} \<or> today \<notin> S"
    then have "today \<notin> S" by auto
    then have "streak_loop S today 0 = Inr 0" by simp
    with n(1) show "n = 0" by simp
  qed
  have res: "calc_current_streak today S = Inr n"
  proof (cases "S = {}")
    case True
    with zero have "n = 0" by simp
    with True show ?thesis by (simp add: calc_current_streak_def)
  next
    case False
    with n(1) show ?thesis by (simp add: calc_current_streak_def)
  qed
  have uniq: "\<forall>m. 0 \<le> m \<and> (\<forall>k. 0 \<le> k \<and> k < m \<longrightarrow> today - k \<in> S) \<and> today - m \<notin> S
                  \<longrightarrow> m = n"
  proof (intro allI impI)
    fix m assume m: "0 \<le> m \<and> (\<forall>k. 0 \<le> k \<and> k < m \<longrightarrow> today - k \<in> S) \<and> today - m \<notin> S"
    have "\<not> m < n" using m n(3) by blast
    moreover have "\<not> n < m" using m n(2) n(4) by blast
    ultimately show "m = n" by simp
  qed
  from res n(2) n(3) n(4) uniq zero show ?thesis by blast
qed

theorem current_streak_witness:
  "(\<exists>d. date_min \<le> d \<and> d \<le> 739924 \<and> d \<notin> {739924, 739923, 739921})
   \<and> calc_current_streak 739924 {739924, 739923, 739921} = Inr 2"
proof -
  have gap: "\<exists>d. date_min \<le> d \<and> d \<le> 739924 \<and> d \<notin> {739924, 739923, 739921::int}"
    by (intro exI [of _ 739922]) (simp add: date_min_def)
  have run: "calc_current_streak 739924 {739924, 739923, 739921} = Inr 2"
    by (simp add: calc_current_streak_def minus_one_day_def date_min_def)
  from current_streak_counts_back_from_today [OF gap] gap run show ?thesis by simp
qed



section \<open>Properties of the refresh-token rotation\<close>

text \<open>
  Claim C3. \<^const>\<open>refresh_token\<close> raises the one exception
  \<open>HTTPException 401 ''Invalid refresh token''\<close> if and only if no stored row has the hash
  of the presented plaintext, or the matched row (the first with that hash) has a non-null
  \<^verbatim>\<open>revoked_at\<close>, or its \<^verbatim>\<open>expires_at\<close> is not strictly after the clock; the three causes give
  the same value. Equivalently the handler gets past this test exactly when the matched row
  is usable in the spec's sense. (The other exception of the handler, \<open>''User not found''\<close>,
  is the spec's \<^verbatim>\<open>NotFound\<close> condition and is raised only after this test has passed.)
\<close>

theorem refresh_invalid_credential_iff:
  "(fst (refresh_token ext amb payload request db) = Inl (HTTPException 401 ''Invalid refresh token'')
      \<longleftrightarrow> (\<forall>r\<in>set (refresh_tokens db).
              rt_token_hash r \<noteq> hash_refresh_token ext (ri_refresh_token payload))
          \<or> (\<exists>r. find (\<lambda>r. rt_token_hash r = hash_refresh_token ext (ri_refresh_token payload))
                    (refresh_tokens db) = Some r
                \<and> (rt_revoked_at r \<noteq> None \<or> rt_expires_at r \<le> utcnow amb)))
   \<and> (fst (refresh_token ext amb payload request db) \<noteq> Inl (HTTPException 401 ''Invalid refresh token'')
      \<longleftrightarrow> (\<exists>r. find (\<lambda>r. rt_token_hash r = hash_refresh_token ext (ri_refresh_token payload))
                    (refresh_tokens db) = Some r
                \<and> usable_spec (utcnow amb) r))"
proof (cases "find (\<lambda>r. rt_token_hash r = hash_refresh_token ext (ri_refresh_token payload))
                (refresh_tokens db)")
  case None
  then have "\<forall>r\<in>set (refresh_tokens db).
              rt_token_hash r \<noteq> hash_refresh_token ext (ri_refresh_token payload)"
    by (simp add: find_None_iff2)
  with None show ?thesis
    by (simp add: refresh_token_def refresh_token_check_def)
next
  case (Some r)
  then have "\<not> (\<forall>r\<in>set (refresh_tokens db).
              rt_token_hash r \<noteq> hash_refresh_token ext (ri_refresh_token payload))"
    by (auto simp add: find_Some_iff)
  with Some show ?thesis
    by (auto simp add: refresh_token_def refresh_token_check_def usable_spec_def
          split: option.splits prod.splits)
qed



theorem refresh_invalid_credential_witness:
  "fst (refresh_token
          \<lparr>hash_refresh_token = (\<lambda>s. ''h:'' @ s),
           create_access_token = (\<lambda>uid g. (''at'', 900, 0)),
           verify_oauth2_token = (\<lambda>t. None)\<rparr>
          \<lparr>utcnow = 500, generate_refresh_token = ''new'', refresh_token_expiry = (1500, 1000)\<rparr>
          \<lparr>ri_refresh_token = ''old''\<rparr>
          \<lparr>client_host = None, user_agent = None\<rparr>
          \<lparr>users = [], refresh_tokens =
             [\<lparr>rt_id = 1, rt_user_id = 7, rt_token_hash = ''h:old'', rt_expires_at = 500,
               rt_revoked_at = None, rt_created_at = 0, rt_created_ip = None,
               rt_created_user_agent = None\<rparr>], coins_ledger = []\<rparr>)
     = Inl (HTTPException 401 ''Invalid refresh token'')"
  using refresh_invalid_credential_iff
    [of "\<lparr>hash_refresh_token = (\<lambda>s. ''h:'' @ s),
           create_access_token = (\<lambda>uid g. (''at'', 900, 0)),
           verify_oauth2_token = (\<lambda>t. None)\<rparr>"
        "\<lparr>utcnow = 500, generate_refresh_token = ''new'', refresh_token_expiry = (1500, 1000)\<rparr>"
        "\<lparr>ri_refresh_token = ''old''\<rparr>"
        "\<lparr>client_host = None, user_agent = None\<rparr>"
        "\<lparr>users = [], refresh_tokens =
             [\<lparr>rt_id = 1, rt_user_id = 7, rt_token_hash = ''h:old'', rt_expires_at = 500,
               rt_revoked_at = None, rt_created_at = 0, rt_created_ip = None,
               rt_created_user_agent = None\<rparr>], coins_ledger = []\<rparr>"]
  by simp



section \<open>Properties of the Google sign-in\<close>

lemma verify_google_token_Inr:
  "verify_google_token v tok = Inr info \<longleftrightarrow>
     v tok = Some info \<and> truthy (c_email info) \<and> c_email_verified info \<noteq> Some False
       \<and> truthy (c_sub info)"
  by (auto simp add: verify_google_token_def split: option.splits)

lemma verify_google_token_Inl:
  "verify_google_token v tok = Inl e \<Longrightarrow> \<exists>detail. e = HTTPException 401 detail"
  by (auto simp add: verify_google_token_def split: option.splits if_splits)

lemma google_auth_user_not_401:
  "google_auth_user now sub email payload db \<noteq> Inl (HTTPException 401 detail)"
  by (auto simp add: google_auth_user_def Let_def split: option.splits)

lemma find_update_by_id:
  "x \<in> set xs \<Longrightarrow> u_id x = u_id y \<Longrightarrow>
     find (\<lambda>u. u_id u = u_id y) (map (\<lambda>u. if u_id u = u_id y then y else u) xs) = Some y"
  by (induction xs) auto

lemma google_auth_verified:
  assumes "verify_oauth2_token ext (gi_id_token payload) = Some info"
      and "c_sub info = Some sub" and "sub \<noteq> []"
      and "c_email info = Some raw" and "raw \<noteq> []"
      and "c_email_verified info \<noteq> Some False"
  shows "google_auth ext lower_strip amb payload request db =
           (case google_auth_user (utcnow amb) sub (lower_strip raw) payload db of
              Inl e \<Rightarrow> (Inl e, db)
            | Inr (user, db1) \<Rightarrow>
                (Inr (fst (google_auth_issue ext amb request user db1)),
                 snd (google_auth_issue ext amb request user db1)))"
  using assms
  by (simp add: google_auth_def verify_google_token_def Let_def
        split: sum.splits prod.splits)

text \<open>
  Claim C7. When the assertion verifies with subject id \<open>sub\<close> and email \<open>raw\<close>, no account
  has that subject id, the request carries the device id \<open>dev\<close>, \<open>guest\<close> is the guest
  account the lookup by device id finds, and no other account holds the email, then
  \<^const>\<open>google_auth\<close> succeeds and returns the id of \<open>guest\<close>; the table of accounts has the
  same length as before, the row of \<open>guest\<close> is rewritten in place, and the account with that id
  now has status \<open>user\<close>, provider \<open>google\<close>, the subject id and the email. The email
  compared and stored is \<open>lower_strip raw\<close>, the claimed email as Python's
  \<^verbatim>\<open>.lower().strip()\<close> returns it, whatever that function computes; for the claim's
  \<^verbatim>\<open>a@x.com\<close>, which is lower-case and has no white space, it is the claimed email itself.
\<close>

theorem guest_upgrade_in_place:
  assumes verified: "verify_oauth2_token ext (gi_id_token payload) = Some info"
      and sub: "c_sub info = Some sub" "sub \<noteq> []"
      and email: "c_email info = Some raw" "raw \<noteq> []"
      and not_unverified: "c_email_verified info \<noteq> Some False"
      and unbound: "\<forall>u\<in>set (users db). u_google_sub u \<noteq> Some sub"
      and device: "gi_device_id payload = Some dev" "dev \<noteq> []"
      and guest: "find (\<lambda>u. u_device_id u = Some dev \<and> u_status u = ''guest'') (users db)
                    = Some guest"
      and no_collision: "\<forall>u\<in>set (users db).
                           u_email u = Some (lower_strip raw) \<longrightarrow> u_id u = u_id guest"
  shows "\<exists>out db'.
           google_auth ext lower_strip amb payload request db = (Inr out, db')
         \<and> go_user_id out = u_id guest
         \<and> length (users db') = length (users db)
         \<and> users db' =
             map (\<lambda>u. if u_id u = u_id guest
                      then guest\<lparr>u_google_sub := Some sub,
                                 u_email := Some (lower_strip raw),
                                 u_status := ''user'',
                                 u_auth_provider := ''google'',
                                 u_last_login_at := Some (utcnow amb)\<rparr>
                      else u) (users db)
         \<and> find (\<lambda>u. u_id u = u_id guest) (users db')
             = Some (guest\<lparr>u_google_sub := Some sub,
                           u_email := Some (lower_strip raw),
                           u_status := ''user'',
                           u_auth_provider := ''google'',
                           u_last_login_at := Some (utcnow amb)\<rparr>)"
proof -
  let ?user = "guest\<lparr>u_google_sub := Some sub,
                           u_email := Some (lower_strip raw),
                           u_status := ''user'',
                           u_auth_provider := ''google'',
                           u_last_login_at := Some (utcnow amb)\<rparr>"
  have nobody: "find (\<lambda>u. u_google_sub u = Some sub) (users db) = None"
    using unbound by (simp add: find_None_iff2)
  have free: "find (\<lambda>u. u_email u = Some (lower_strip raw) \<and> u_id u \<noteq> u_id guest) (users db)
                = None"
    using no_collision by (auto simp add: find_None_iff2)
  have mem: "guest \<in> set (users db)"
    using guest by (auto simp add: find_Some_iff)
  have bound: "google_auth_user (utcnow amb) sub (lower_strip raw) payload db
          = Inr (?user, update_user ?user db)"
    using nobody device guest free
    by (simp add: google_auth_user_def Let_def)
  have run: "google_auth ext lower_strip amb payload request db =
      (Inr (fst (google_auth_issue ext amb request ?user (update_user ?user db))),
       snd (google_auth_issue ext amb request ?user (update_user ?user db)))"
    using google_auth_verified [OF verified sub email not_unverified, of lower_strip amb request db] bound
    by simp
  have uid: "go_user_id (fst (google_auth_issue ext amb request ?user (update_user ?user db)))
               = u_id guest"
    by (simp add: google_auth_issue_def Let_def)
  have us: "users (snd (google_auth_issue ext amb request ?user (update_user ?user db)))
              = map (\<lambda>u. if u_id u = u_id guest then ?user else u) (users db)"
    by (simp add: google_auth_issue_def Let_def update_user_def)
  have found: "find (\<lambda>u. u_id u = u_id guest)
                 (map (\<lambda>u. if u_id u = u_id guest then ?user else u) (users db)) = Some ?user"
    using find_update_by_id [OF mem, of ?user] by simp
  from run uid us found show ?thesis by simp
qed

theorem guest_upgrade_witness:
  "\<exists>out db'.
     google_auth
       \<lparr>hash_refresh_token = (\<lambda>s. ''h:'' @ s),
        create_access_token = (\<lambda>uid g. (''at'', 900, 0)),
        verify_oauth2_token =
          (\<lambda>t. Some \<lparr>c_sub = Some ''g1'', c_email = Some ''a@x.com'',
                      c_email_verified = Some True\<rparr>)\<rparr>
       (\<lambda>s. s)
       \<lparr>utcnow = 500, generate_refresh_token = ''new'', refresh_token_expiry = (1500, 1000)\<rparr>
       \<lparr>gi_id_token = ''eyJhbGciOiJSUzI1NiJ9.e30.sig'', gi_device_id = Some ''dev-1''\<rparr>
       \<lparr>client_host = None, user_agent = None\<rparr>
       \<lparr>users = [\<lparr>u_id = 3, u_status = ''guest'', u_auth_provider = ''guest'', u_google_sub = None,
            u_email = None, u_device_id = Some ''dev-1'', u_created_at = 100,
            u_last_login_at = None\<rparr>], refresh_tokens = [], coins_ledger = []\<rparr> = (Inr out, db')
   \<and> go_user_id out = 3
   \<and> users db' = [\<lparr>u_id = 3, u_status = ''user'', u_auth_provider = ''google'',
              u_google_sub = Some ''g1'', u_email = Some ''a@x.com'',
              u_device_id = Some ''dev-1'', u_created_at = 100,
              u_last_login_at = Some 500\<rparr>]"
  using guest_upgrade_in_place
    [where ext = "\<lparr>hash_refresh_token = (\<lambda>s. ''h:'' @ s),
        create_access_token = (\<lambda>uid g. (''at'', 900, 0)),
        verify_oauth2_token =
          (\<lambda>t. Some \<lparr>c_sub = Some ''g1'', c_email = Some ''a@x.com'',
                      c_email_verified = Some True\<rparr>)\<rparr>"
       and lower_strip = "\<lambda>s. s"
       and amb = "\<lparr>utcnow = 500, generate_refresh_token = ''new'', refresh_token_expiry = (1500, 1000)\<rparr>"
       and payload = "\<lparr>gi_id_token = ''eyJhbGciOiJSUzI1NiJ9.e30.sig'', gi_device_id = Some ''dev-1''\<rparr>"
       and request = "\<lparr>client_host = None, user_agent = None\<rparr>"
       and db = "\<lparr>users = [\<lparr>u_id = 3, u_status = ''guest'', u_auth_provider = ''guest'', u_google_sub = None,
            u_email = None, u_device_id = Some ''dev-1'', u_created_at = 100,
            u_last_login_at = None\<rparr>], refresh_tokens = [], coins_ledger = []\<rparr>"
       and info = "\<lparr>c_sub = Some ''g1'', c_email = Some ''a@x.com'', c_email_verified = Some True\<rparr>"
       and sub = "''g1''" and raw = "''a@x.com''" and dev = "''dev-1''"
       and guest = "\<lparr>u_id = 3, u_status = ''guest'', u_auth_provider = ''guest'', u_google_sub = None,
            u_email = None, u_device_id = Some ''dev-1'', u_created_at = 100,
            u_last_login_at = None\<rparr>"]
  by simp blast

text \<open>
  Claim C8. In the same situation, when another account \<open>owner\<close> holds the claimed email
  (the stored email equals \<open>lower_strip raw\<close>, the value the handler compares with, for
  whatever Python's \<^verbatim>\<open>.lower().strip()\<close> computes) with a different subject id,
  \<^const>\<open>google_auth\<close> raises \<open>HTTPException 409\<close> and the database is the one it was given:
  the guest row is unchanged.
\<close>

theorem guest_upgrade_conflict:
  assumes verified: "verify_oauth2_token ext (gi_id_token payload) = Some info"
      and sub: "c_sub info = Some sub" "sub \<noteq> []"
      and email: "c_email info = Some raw" "raw \<noteq> []"
      and not_unverified: "c_email_verified info \<noteq> Some False"
      and unbound: "\<forall>u\<in>set (users db). u_google_sub u \<noteq> Some sub"
      and device: "gi_device_id payload = Some dev" "dev \<noteq> []"
      and guest: "find (\<lambda>u. u_device_id u = Some dev \<and> u_status u = ''guest'') (users db)
                    = Some guest"
      and owner: "owner \<in> set (users db)" "u_email owner = Some (lower_strip raw)"
                 "u_id owner \<noteq> u_id guest" "u_google_sub owner \<noteq> Some sub"
  shows "google_auth ext lower_strip amb payload request db
           = (Inl (HTTPException 409 ''Email already in use by another account''), db)"
proof -
  have nobody: "find (\<lambda>u. u_google_sub u = Some sub) (users db) = None"
    using unbound by (simp add: find_None_iff2)
  obtain first_owner where first_owner:
      "find (\<lambda>u. u_email u = Some (lower_strip raw) \<and> u_id u \<noteq> u_id guest) (users db)
         = Some first_owner"
    using owner(1-3)
    by (cases "find (\<lambda>u. u_email u = Some (lower_strip raw) \<and> u_id u \<noteq> u_id guest) (users db)")
       (auto simp add: find_None_iff2)
  then have "first_owner \<in> set (users db)"
    by (auto simp add: find_Some_iff)
  with unbound have other: "u_google_sub first_owner \<noteq> Some sub" by blast
  have "google_auth_user (utcnow amb) sub (lower_strip raw) payload db
          = Inl (HTTPException 409 ''Email already in use by another account'')"
    using nobody device guest first_owner other
    by (simp add: google_auth_user_def)
  then show ?thesis
    using google_auth_verified [OF verified sub email not_unverified, of lower_strip amb request db]
    by simp
qed

theorem guest_upgrade_conflict_witness:
  "google_auth
       \<lparr>hash_refresh_token = (\<lambda>s. ''h:'' @ s),
        create_access_token = (\<lambda>uid g. (''at'', 900, 0)),
        verify_oauth2_token =
          (\<lambda>t. Some \<lparr>c_sub = Some ''g2'', c_email = Some ''a@x.com'',
                      c_email_verified = Some True\<rparr>)\<rparr>
       (\<lambda>s. s)
       \<lparr>utcnow = 500, generate_refresh_token = ''new'', refresh_token_expiry = (1500, 1000)\<rparr>
       \<lparr>gi_id_token = ''eyJhbGciOiJSUzI1NiJ9.e30.sig'', gi_device_id = Some ''dev-2''\<rparr>
       \<lparr>client_host = None, user_agent = None\<rparr>
       \<lparr>users = [\<lparr>u_id = 1, u_status = ''user'', u_auth_provider = ''google'',
            u_google_sub = Some ''g1'', u_email = Some ''a@x.com'', u_device_id = None,
            u_created_at = 50, u_last_login_at = Some 60\<rparr>,
           \<lparr>u_id = 2, u_status = ''guest'', u_auth_provider = ''guest'', u_google_sub = None,
            u_email = None, u_device_id = Some ''dev-2'', u_created_at = 100,
            u_last_login_at = None\<rparr>], refresh_tokens = [], coins_ledger = []\<rparr>
   = (Inl (HTTPException 409 ''Email already in use by another account''),
      \<lparr>users = [\<lparr>u_id = 1, u_status = ''user'', u_auth_provider = ''google'',
            u_google_sub = Some ''g1'', u_email = Some ''a@x.com'', u_device_id = None,
            u_created_at = 50, u_last_login_at = Some 60\<rparr>,
           \<lparr>u_id = 2, u_status = ''guest'', u_auth_provider = ''guest'', u_google_sub = None,
            u_email = None, u_device_id = Some ''dev-2'', u_created_at = 100,
            u_last_login_at = None\<rparr>], refresh_tokens = [], coins_ledger = []\<rparr>)"
  using guest_upgrade_conflict
    [where ext = "\<lparr>hash_refresh_token = (\<lambda>s. ''h:'' @ s),
        create_access_token = (\<lambda>uid g. (''at'', 900, 0)),
        verify_oauth2_token =
          (\<lambda>t. Some \<lparr>c_sub = Some ''g2'', c_email = Some ''a@x.com'',
                      c_email_verified = Some True\<rparr>)\<rparr>"
       and lower_strip = "\<lambda>s. s"
       and amb = "\<lparr>utcnow = 500, generate_refresh_token = ''new'', refresh_token_expiry = (1500, 1000)\<rparr>"
       and payload = "\<lparr>gi_id_token = ''eyJhbGciOiJSUzI1NiJ9.e30.sig'', gi_device_id = Some ''dev-2''\<rparr>"
       and request = "\<lparr>client_host = None, user_agent = None\<rparr>"
       and db = "\<lparr>users = [\<lparr>u_id = 1, u_status = ''user'', u_auth_provider = ''google'',
            u_google_sub = Some ''g1'', u_email = Some ''a@x.com'', u_device_id = None,
            u_created_at = 50, u_last_login_at = Some 60\<rparr>,
           \<lparr>u_id = 2, u_status = ''guest'', u_auth_provider = ''guest'', u_google_sub = None,
            u_email = None, u_device_id = Some ''dev-2'', u_created_at = 100,
            u_last_login_at = None\<rparr>], refresh_tokens = [], coins_ledger = []\<rparr>"
       and info = "\<lparr>c_sub = Some ''g2'', c_email = Some ''a@x.com'', c_email_verified = Some True\<rparr>"
       and sub = "''g2''" and raw = "''a@x.com''" and dev = "''dev-2''"
       and guest = "\<lparr>u_id = 2, u_status = ''guest'', u_auth_provider = ''guest'', u_google_sub = None,
            u_email = None, u_device_id = Some ''dev-2'', u_created_at = 100,
            u_last_login_at = None\<rparr>"
       and owner = "\<lparr>u_id = 1, u_status = ''user'', u_auth_provider = ''google'',
            u_google_sub = Some ''g1'', u_email = Some ''a@x.com'', u_device_id = None,
            u_created_at = 50, u_last_login_at = Some 60\<rparr>"]
  by simp

text \<open>
  Claim C9, as stated, fails: claims with a subject id and an email but no
  \<^verbatim>\<open>email_verified\<close> entry pass \<^const>\<open>verify_google_token\<close>, although the email is not
  verified. The test is \<^verbatim>\<open>info.get("email_verified") is False\<close>, which only an explicit
  \<^verbatim>\<open>False\<close> meets.
\<close>

theorem google_claims_counterexample:
  "verify_google_token
     (\<lambda>t. Some \<lparr>c_sub = Some ''g1'', c_email = Some ''a@x.com'', c_email_verified = None\<rparr>)
     ''eyJhbGciOiJSUzI1NiJ9.e30.sig''
   = Inr \<lparr>c_sub = Some ''g1'', c_email = Some ''a@x.com'', c_email_verified = None\<rparr>"
  by (simp add: verify_google_token_def)

text \<open>
  Claim C9, amended. \<^const>\<open>google_auth\<close> raises an \<open>HTTPException 401\<close> if and only if the
  verifier rejects the assertion, or the claims lack a non-empty subject id, or lack a
  non-empty email, or carry \<^verbatim>\<open>email_verified\<close> equal to \<^verbatim>\<open>False\<close>; and when it does, the
  database is unchanged.
\<close>

theorem google_auth_unverified_identity:
  "((\<exists>detail. fst (google_auth ext lower_strip amb payload request db) = Inl (HTTPException 401 detail))
      \<longleftrightarrow> (case verify_oauth2_token ext (gi_id_token payload) of
             None \<Rightarrow> True
           | Some info \<Rightarrow> \<not> truthy (c_sub info) \<or> \<not> truthy (c_email info)
                           \<or> c_email_verified info = Some False))
   \<and> ((\<exists>detail. fst (google_auth ext lower_strip amb payload request db) = Inl (HTTPException 401 detail))
      \<longrightarrow> snd (google_auth ext lower_strip amb payload request db) = db)"
proof (cases "verify_google_token (verify_oauth2_token ext) (gi_id_token payload)")
  case (Inl e)
  then obtain detail where e: "e = HTTPException 401 detail"
    using verify_google_token_Inl by blast
  have bad: "case verify_oauth2_token ext (gi_id_token payload) of
             None \<Rightarrow> True
           | Some info \<Rightarrow> \<not> truthy (c_sub info) \<or> \<not> truthy (c_email info)
                           \<or> c_email_verified info = Some False"
    using Inl by (auto simp add: verify_google_token_def split: option.splits if_splits)
  have "google_auth ext lower_strip amb payload request db = (Inl (HTTPException 401 detail), db)"
    using Inl e by (simp add: google_auth_def)
  with bad show ?thesis by simp
next
  case (Inr info)
  then have ok: "verify_oauth2_token ext (gi_id_token payload) = Some info"
      "truthy (c_email info)" "c_email_verified info \<noteq> Some False" "truthy (c_sub info)"
    by (simp_all add: verify_google_token_Inr)
  from ok(2) obtain raw where raw: "c_email info = Some raw" by (cases "c_email info") auto
  from ok(4) obtain sub where sub: "c_sub info = Some sub" by (cases "c_sub info") auto
  have "\<And>detail. fst (google_auth ext lower_strip amb payload request db) \<noteq> Inl (HTTPException 401 detail)"
    using Inr raw sub
      google_auth_user_not_401 [of "utcnow amb" sub "lower_strip raw" payload db]
    by (auto simp add: google_auth_def Let_def split: sum.splits prod.splits)
  with ok show ?thesis by simp
qed

theorem google_auth_unverified_witness:
  "google_auth
     \<lparr>hash_refresh_token = (\<lambda>s. ''h:'' @ s),
      create_access_token = (\<lambda>uid g. (''at'', 900, 0)),
      verify_oauth2_token =
        (\<lambda>t. Some \<lparr>c_sub = Some ''g1'', c_email = Some ''a@x.com'',
                    c_email_verified = Some False\<rparr>)\<rparr>
     (\<lambda>s. s)
     \<lparr>utcnow = 500, generate_refresh_token = ''new'', refresh_token_expiry = (1500, 1000)\<rparr>
     \<lparr>gi_id_token = ''eyJhbGciOiJSUzI1NiJ9.e30.sig'', gi_device_id = None\<rparr>
     \<lparr>client_host = None, user_agent = None\<rparr>
     \<lparr>users = [], refresh_tokens = [], coins_ledger = []\<rparr>
   = (Inl (HTTPException 401 ''Google email not verified''),
      \<lparr>users = [], refresh_tokens = [], coins_ledger = []\<rparr>)"
  using google_auth_unverified_identity
    [of "\<lparr>hash_refresh_token = (\<lambda>s. ''h:'' @ s),
      create_access_token = (\<lambda>uid g. (''at'', 900, 0)),
      verify_oauth2_token =
        (\<lambda>t. Some \<lparr>c_sub = Some ''g1'', c_email = Some ''a@x.com'',
                    c_email_verified = Some False\<rparr>)\<rparr>"
     "\<lambda>s. s"
     "\<lparr>utcnow = 500, generate_refresh_token = ''new'', refresh_token_expiry = (1500, 1000)\<rparr>"
     "\<lparr>gi_id_token = ''eyJhbGciOiJSUzI1NiJ9.e30.sig'', gi_device_id = None\<rparr>"
     "\<lparr>client_host = None, user_agent = None\<rparr>"
     "\<lparr>users = [], refresh_tokens = [], coins_ledger = []\<rparr>"]
  by (simp add: google_auth_def verify_google_token_def)


section \<open>Single use of a refresh token\<close>

lemma find_map_same:
  "(\<And>x. P (f x) = P x) \<Longrightarrow> find P (map f xs) = map_option f (find P xs)"
  by (induction xs) auto

lemma find_revoked_rows:
  "find (\<lambda>r. rt_token_hash r = h)
        (map (\<lambda>r. if rt_id r = i then r\<lparr>rt_revoked_at := Some now\<rparr> else r) rows)
     = map_option (\<lambda>r. if rt_id r = i then r\<lparr>rt_revoked_at := Some now\<rparr> else r)
         (find (\<lambda>r. rt_token_hash r = h) rows)"
  by (rule find_map_same) simp

text \<open>A successful rotation, spelled out.\<close>

lemma refresh_token_success:
  assumes found: "find (\<lambda>r. rt_token_hash r = hash_refresh_token ext plain) (refresh_tokens db)
                    = Some old_rt"
      and active: "rt_revoked_at old_rt = None"
      and live: "utcnow amb < rt_expires_at old_rt"
      and owner: "find (\<lambda>u. u_id u = rt_user_id old_rt) (users db) = Some user"
  shows "refresh_token ext amb \<lparr>ri_refresh_token = plain\<rparr> request db =
           (Inr (fst (refresh_token_issue ext amb request user (u_status user = ''guest'')
                        (refresh_token_revoke (utcnow amb) old_rt db))),
            snd (refresh_token_issue ext amb request user (u_status user = ''guest'')
                        (refresh_token_revoke (utcnow amb) old_rt db)))"
  using assms
  by (simp add: refresh_token_def refresh_token_check_def split: prod.splits)

lemma refresh_token_issue_rows:
  "refresh_tokens (snd (refresh_token_issue ext amb request user g db)) =
     refresh_tokens db @
       [\<lparr>rt_id = next_id (map rt_id (refresh_tokens db)),
         rt_user_id = u_id user,
         rt_token_hash = hash_refresh_token ext (generate_refresh_token amb),
         rt_expires_at = fst (refresh_token_expiry amb),
         rt_revoked_at = None,
         rt_created_at = utcnow amb,
         rt_created_ip = client_host request,
         rt_created_user_agent = Some (created_user_agent request)\<rparr>]"
  "users (snd (refresh_token_issue ext amb request user g db)) = users db"
  "ro_refresh_token (fst (refresh_token_issue ext amb request user g db))
     = generate_refresh_token amb"
  by (simp_all add: refresh_token_issue_def Let_def)

lemma refresh_token_revoke_rows:
  "refresh_tokens (refresh_token_revoke now old_rt db) =
     map (\<lambda>r. if rt_id r = rt_id old_rt then r\<lparr>rt_revoked_at := Some now\<rparr> else r)
       (refresh_tokens db)"
  "users (refresh_token_revoke now old_rt db) = users db"
  by (simp_all add: refresh_token_revoke_def)

text \<open>After a successful rotation the presented plaintext finds the revoked row.\<close>

lemma refresh_token_success_revokes:
  assumes found: "find (\<lambda>r. rt_token_hash r = hash_refresh_token ext plain) (refresh_tokens db)
                    = Some old_rt"
      and active: "rt_revoked_at old_rt = None"
      and live: "utcnow amb < rt_expires_at old_rt"
      and owner: "find (\<lambda>u. u_id u = rt_user_id old_rt) (users db) = Some user"
  shows "\<exists>out db2. refresh_token ext amb \<lparr>ri_refresh_token = plain\<rparr> request db = (Inr out, db2)
           \<and> ro_refresh_token out = generate_refresh_token amb
           \<and> find (\<lambda>r. rt_token_hash r = hash_refresh_token ext plain) (refresh_tokens db2)
               = Some (old_rt\<lparr>rt_revoked_at := Some (utcnow amb)\<rparr>)"
  using found
  by (simp add: refresh_token_success [OF assms] refresh_token_issue_rows
        refresh_token_revoke_rows find_snoc find_revoked_rows)

lemma refresh_token_revoked_fails:
  assumes "find (\<lambda>r. rt_token_hash r = hash_refresh_token ext plain) (refresh_tokens db)
             = Some old_rt"
      and "rt_revoked_at old_rt \<noteq> None"
  shows "refresh_token ext amb \<lparr>ri_refresh_token = plain\<rparr> request db
           = (Inl (HTTPException 401 ''Invalid refresh token''), db)"
  using assms by (simp add: refresh_token_def refresh_token_check_def)


lemma find_snoc_hit: "P x \<Longrightarrow> find P (xs @ [x]) \<noteq> None"
  by (simp add: find_snoc split: option.splits)

text \<open>The account \<^const>\<open>google_auth_user\<close> returns is in the table it returns.\<close>

lemma google_auth_user_stored:
  assumes "google_auth_user now sub email payload db = Inr (user, db1)"
  shows "refresh_tokens db1 = refresh_tokens db
       \<and> find (\<lambda>u. u_id u = u_id user) (users db1) \<noteq> None"
proof (cases "find (\<lambda>u. u_google_sub u = Some sub) (users db)")
  case (Some bound)
  then have mem: "bound \<in> set (users db)" by (auto simp add: find_Some_iff)
  have id: "u_id bound = u_id user" and db1: "db1 = update_user user db"
    using assms Some by (auto simp add: google_auth_user_def Let_def split: if_splits)
  show ?thesis
    using find_update_by_id [OF mem id] db1 by (simp add: update_user_def)
next
  case None
  show ?thesis
  proof (cases "find (\<lambda>u. u_device_id u = gi_device_id payload \<and> u_status u = ''guest'')
                  (users db)")
    case (Some guest)
    then have mem: "guest \<in> set (users db)" by (auto simp add: find_Some_iff)
    show ?thesis
    proof (cases "truthy (gi_device_id payload)")
      case True
      have id: "u_id guest = u_id user" and db1: "db1 = update_user user db"
        using assms None Some True
        by (auto simp add: google_auth_user_def Let_def split: if_splits)
      show ?thesis
        using find_update_by_id [OF mem id] db1 by (simp add: update_user_def)
    next
      case False
      then have "db1 = add_user user db"
        using assms None by (auto simp add: google_auth_user_def Let_def)
      then show ?thesis
        using find_snoc_hit [of "\<lambda>u. u_id u = u_id user" user "users db"]
        by (simp add: add_user_def)
    qed
  next
    case no_guest: None
    have "db1 = add_user user db"
      using assms None no_guest
      by (auto simp add: google_auth_user_def Let_def split: if_splits)
    then show ?thesis
      using find_snoc_hit [of "\<lambda>u. u_id u = u_id user" user "users db"]
      by (simp add: add_user_def)
  qed
qed

lemma google_auth_issue_rows:
  "refresh_tokens (snd (google_auth_issue ext amb request user db)) =
     refresh_tokens db @
       [\<lparr>rt_id = next_id (map rt_id (refresh_tokens db)),
         rt_user_id = u_id user,
         rt_token_hash = hash_refresh_token ext (generate_refresh_token amb),
         rt_expires_at = fst (refresh_token_expiry amb),
         rt_revoked_at = None,
         rt_created_at = utcnow amb,
         rt_created_ip = client_host request,
         rt_created_user_agent = Some (created_user_agent request)\<rparr>]"
  "users (snd (google_auth_issue ext amb request user db)) = users db"
  "go_refresh_token (fst (google_auth_issue ext amb request user db))
     = generate_refresh_token amb"
  by (simp_all add: google_auth_issue_def Let_def)

lemma google_auth_issues:
  assumes fresh: "\<forall>r\<in>set (refresh_tokens db).
                    rt_token_hash r \<noteq> hash_refresh_token ext (generate_refresh_token amb)"
      and ok: "google_auth ext lower_strip amb payload request db = (Inr out, db1)"
  shows "go_refresh_token out = generate_refresh_token amb
       \<and> issued ext amb (generate_refresh_token amb) db1"
proof -
  from ok obtain sub raw user db0 where
      user: "google_auth_user (utcnow amb) sub (lower_strip raw) payload db = Inr (user, db0)"
      and out: "out = fst (google_auth_issue ext amb request user db0)"
      and db1: "db1 = snd (google_auth_issue ext amb request user db0)"
    by (auto simp add: google_auth_def Let_def split: sum.splits option.splits prod.splits)
  from google_auth_user_stored [OF user]
  have rows: "refresh_tokens db0 = refresh_tokens db"
    and stored: "find (\<lambda>u. u_id u = u_id user) (users db0) \<noteq> None"
    by simp_all
  have none: "find (\<lambda>r. rt_token_hash r = hash_refresh_token ext (generate_refresh_token amb))
                (refresh_tokens db) = None"
    using fresh by (simp add: find_None_iff2)
  show ?thesis
    using none stored
    by (simp add: issued_def out db1 google_auth_issue_rows rows find_snoc)
qed

lemma refresh_token_issues:
  assumes fresh: "\<forall>r\<in>set (refresh_tokens db).
                    rt_token_hash r \<noteq> hash_refresh_token ext (generate_refresh_token amb)"
      and ok: "refresh_token ext amb payload request db = (Inr out, db1)"
  shows "ro_refresh_token out = generate_refresh_token amb
       \<and> issued ext amb (generate_refresh_token amb) db1"
proof -
  from ok obtain old_rt user g where
      chk: "refresh_token_check ext (utcnow amb) payload db = Inr (old_rt, user, g)"
      and out: "out = fst (refresh_token_issue ext amb request user g
                             (refresh_token_revoke (utcnow amb) old_rt db))"
      and db1: "db1 = snd (refresh_token_issue ext amb request user g
                             (refresh_token_revoke (utcnow amb) old_rt db))"
    by (auto simp add: refresh_token_def Let_def split: sum.splits prod.splits)
  from chk have stored: "find (\<lambda>u. u_id u = u_id user) (users db) \<noteq> None"
    by (auto simp add: refresh_token_check_def Let_def find_Some_iff
          split: option.splits if_splits)
  have none: "find (\<lambda>r. rt_token_hash r = hash_refresh_token ext (generate_refresh_token amb))
                (refresh_tokens db) = None"
    using fresh by (simp add: find_None_iff2)
  show ?thesis
    using none stored
    by (simp add: issued_def out db1 refresh_token_issue_rows refresh_token_revoke_rows
          find_snoc find_revoked_rows)
qed


text \<open>
  Claim C2. Let a refresh token be handed out by \<^const>\<open>google_auth\<close> (login) or by
  \<^const>\<open>refresh_token\<close> (rotation), its secret being one whose hash is not in the table yet.
  Then a rotation presenting that plaintext before the token's expiry succeeds and returns a
  new pair, and every later rotation presenting the same plaintext, at any time, raises
  \<open>HTTPException 401 ''Invalid refresh token''\<close> and changes nothing: the first rotation has
  set \<^verbatim>\<open>revoked_at\<close> on the matched row.
\<close>

theorem rotate_exactly_once:
  assumes fresh: "\<forall>r\<in>set (refresh_tokens db).
                    rt_token_hash r \<noteq> hash_refresh_token ext (generate_refresh_token amb)"
      and handed_out:
        "(\<exists>out. google_auth ext lower_strip amb login request db = (Inr out, db_issued)
                \<and> go_refresh_token out = plain)
         \<or> (\<exists>out. refresh_token ext amb earlier request db = (Inr out, db_issued)
                \<and> ro_refresh_token out = plain)"
      and live: "utcnow amb_rotate < fst (refresh_token_expiry amb)"
  shows "\<exists>out2 db2.
           refresh_token ext amb_rotate \<lparr>ri_refresh_token = plain\<rparr> request_rotate db_issued = (Inr out2, db2)
         \<and> ro_refresh_token out2 = generate_refresh_token amb_rotate
         \<and> (\<forall>amb_again request_again.
               refresh_token ext amb_again \<lparr>ri_refresh_token = plain\<rparr> request_again db2
                 = (Inl (HTTPException 401 ''Invalid refresh token''), db2))"
proof -
  from handed_out have "plain = generate_refresh_token amb \<and> issued ext amb plain db_issued"
    using google_auth_issues [OF fresh] refresh_token_issues [OF fresh] by auto
  then obtain row user where
      row: "find (\<lambda>r. rt_token_hash r = hash_refresh_token ext plain) (refresh_tokens db_issued)
              = Some row"
      and active: "rt_revoked_at row = None"
      and expiry: "rt_expires_at row = fst (refresh_token_expiry amb)"
      and owner: "find (\<lambda>u. u_id u = rt_user_id row) (users db_issued) = Some user"
    by (auto simp add: issued_def split: option.splits)
  from live expiry have live': "utcnow amb_rotate < rt_expires_at row" by simp
  from refresh_token_success_revokes [OF row active live' owner, of request_rotate]
  obtain out2 db2 where
      first: "refresh_token ext amb_rotate \<lparr>ri_refresh_token = plain\<rparr> request_rotate db_issued = (Inr out2, db2)"
      and pair: "ro_refresh_token out2 = generate_refresh_token amb_rotate"
      and revoked: "find (\<lambda>r. rt_token_hash r = hash_refresh_token ext plain)
                      (refresh_tokens db2) = Some (row\<lparr>rt_revoked_at := Some (utcnow amb_rotate)\<rparr>)"
    by blast
  have second: "\<forall>amb_again request_again.
               refresh_token ext amb_again \<lparr>ri_refresh_token = plain\<rparr> request_again db2
                 = (Inl (HTTPException 401 ''Invalid refresh token''), db2)"
    using refresh_token_revoked_fails [OF revoked] by simp
  from first pair second show ?thesis by blast
qed

theorem rotate_exactly_once_witness:
  "refresh_token
       \<lparr>hash_refresh_token = (\<lambda>s. ''h:'' @ s),
        create_access_token = (\<lambda>uid g. (''at'', 900, 0)),
        verify_oauth2_token =
          (\<lambda>t. Some \<lparr>c_sub = Some ''g1'', c_email = Some ''a@x.com'',
                      c_email_verified = Some True\<rparr>)\<rparr>
       \<lparr>utcnow = 700, generate_refresh_token = ''rt-2'', refresh_token_expiry = (1700, 1000)\<rparr>
       \<lparr>ri_refresh_token = ''rt-1''\<rparr> \<lparr>client_host = None, user_agent = None\<rparr>
       \<lparr>users = [\<lparr>u_id = 1, u_status = ''user'', u_auth_provider = ''google'',
                  u_google_sub = Some ''g1'', u_email = Some ''a@x.com'', u_device_id = None,
                  u_created_at = 500, u_last_login_at = Some 500\<rparr>],
         refresh_tokens = [\<lparr>rt_id = 1, rt_user_id = 1, rt_token_hash = ''h:rt-1'', rt_expires_at = 1500,
                  rt_revoked_at = None, rt_created_at = 500, rt_created_ip = None,
                  rt_created_user_agent = Some []\<rparr>],
         coins_ledger = []\<rparr>
     = (Inr \<lparr>ro_access_token = ''at'', ro_access_token_expires_in = 900,
            ro_refresh_token = ''rt-2'', ro_refresh_token_expires_in = 1000\<rparr>,
        \<lparr>users = [\<lparr>u_id = 1, u_status = ''user'', u_auth_provider = ''google'',
                  u_google_sub = Some ''g1'', u_email = Some ''a@x.com'', u_device_id = None,
                  u_created_at = 500, u_last_login_at = Some 500\<rparr>],
         refresh_tokens = [\<lparr>rt_id = 1, rt_user_id = 1, rt_token_hash = ''h:rt-1'', rt_expires_at = 1500,
                  rt_revoked_at = Some 700, rt_created_at = 500, rt_created_ip = None,
                  rt_created_user_agent = Some []\<rparr>,
                 \<lparr>rt_id = 2, rt_user_id = 1, rt_token_hash = ''h:rt-2'', rt_expires_at = 1700,
                  rt_revoked_at = None, rt_created_at = 700, rt_created_ip = None,
                  rt_created_user_agent = Some []\<rparr>],
         coins_ledger = []\<rparr>)
   \<and> refresh_token
       \<lparr>hash_refresh_token = (\<lambda>s. ''h:'' @ s),
        create_access_token = (\<lambda>uid g. (''at'', 900, 0)),
        verify_oauth2_token =
          (\<lambda>t. Some \<lparr>c_sub = Some ''g1'', c_email = Some ''a@x.com'',
                      c_email_verified = Some True\<rparr>)\<rparr>
       \<lparr>utcnow = 800, generate_refresh_token = ''rt-3'', refresh_token_expiry = (1800, 1000)\<rparr>
       \<lparr>ri_refresh_token = ''rt-1''\<rparr> \<lparr>client_host = None, user_agent = None\<rparr>
       \<lparr>users = [\<lparr>u_id = 1, u_status = ''user'', u_auth_provider = ''google'',
                  u_google_sub = Some ''g1'', u_email = Some ''a@x.com'', u_device_id = None,
                  u_created_at = 500, u_last_login_at = Some 500\<rparr>],
         refresh_tokens = [\<lparr>rt_id = 1, rt_user_id = 1, rt_token_hash = ''h:rt-1'', rt_expires_at = 1500,
                  rt_revoked_at = Some 700, rt_created_at = 500, rt_created_ip = None,
                  rt_created_user_agent = Some []\<rparr>,
                 \<lparr>rt_id = 2, rt_user_id = 1, rt_token_hash = ''h:rt-2'', rt_expires_at = 1700,
                  rt_revoked_at = None, rt_created_at = 700, rt_created_ip = None,
                  rt_created_user_agent = Some []\<rparr>],
         coins_ledger = []\<rparr>
     = (Inl (HTTPException 401 ''Invalid refresh token''),
        \<lparr>users = [\<lparr>u_id = 1, u_status = ''user'', u_auth_provider = ''google'',
                  u_google_sub = Some ''g1'', u_email = Some ''a@x.com'', u_device_id = None,
                  u_created_at = 500, u_last_login_at = Some 500\<rparr>],
         refresh_tokens = [\<lparr>rt_id = 1, rt_user_id = 1, rt_token_hash = ''h:rt-1'', rt_expires_at = 1500,
                  rt_revoked_at = Some 700, rt_created_at = 500, rt_created_ip = None,
                  rt_created_user_agent = Some []\<rparr>,
                 \<lparr>rt_id = 2, rt_user_id = 1, rt_token_hash = ''h:rt-2'', rt_expires_at = 1700,
                  rt_revoked_at = None, rt_created_at = 700, rt_created_ip = None,
                  rt_created_user_agent = Some []\<rparr>],
         coins_ledger = []\<rparr>)"
proof -
  have login: "google_auth
       \<lparr>hash_refresh_token = (\<lambda>s. ''h:'' @ s),
        create_access_token = (\<lambda>uid g. (''at'', 900, 0)),
        verify_oauth2_token =
          (\<lambda>t. Some \<lparr>c_sub = Some ''g1'', c_email = Some ''a@x.com'',
                      c_email_verified = Some True\<rparr>)\<rparr>
       (\<lambda>s. s)
       \<lparr>utcnow = 500, generate_refresh_token = ''rt-1'', refresh_token_expiry = (1500, 1000)\<rparr>
       \<lparr>gi_id_token = ''eyJhbGciOiJSUzI1NiJ9.e30.sig'', gi_device_id = None\<rparr> \<lparr>client_host = None, user_agent = None\<rparr>
       \<lparr>users = [], refresh_tokens = [], coins_ledger = []\<rparr>
     = (Inr \<lparr>go_user_id = 1, go_access_token = ''at'', go_expires_in = 900, go_is_guest = False,
            go_refresh_token = ''rt-1'', go_refresh_expires_in = 1000\<rparr>,
        \<lparr>users = [\<lparr>u_id = 1, u_status = ''user'', u_auth_provider = ''google'',
                  u_google_sub = Some ''g1'', u_email = Some ''a@x.com'', u_device_id = None,
                  u_created_at = 500, u_last_login_at = Some 500\<rparr>],
         refresh_tokens = [\<lparr>rt_id = 1, rt_user_id = 1, rt_token_hash = ''h:rt-1'', rt_expires_at = 1500,
                  rt_revoked_at = None, rt_created_at = 500, rt_created_ip = None,
                  rt_created_user_agent = Some []\<rparr>],
         coins_ledger = []\<rparr>)"
    by (simp add: google_auth_def verify_google_token_def google_auth_user_def
          google_auth_issue_def add_user_def next_id_def created_user_agent_def
          Let_def)
  have first: "refresh_token
       \<lparr>hash_refresh_token = (\<lambda>s. ''h:'' @ s),
        create_access_token = (\<lambda>uid g. (''at'', 900, 0)),
        verify_oauth2_token =
          (\<lambda>t. Some \<lparr>c_sub = Some ''g1'', c_email = Some ''a@x.com'',
                      c_email_verified = Some True\<rparr>)\<rparr>
       \<lparr>utcnow = 700, generate_refresh_token = ''rt-2'', refresh_token_expiry = (1700, 1000)\<rparr>
       \<lparr>ri_refresh_token = ''rt-1''\<rparr> \<lparr>client_host = None, user_agent = None\<rparr>
       \<lparr>users = [\<lparr>u_id = 1, u_status = ''user'', u_auth_provider = ''google'',
                  u_google_sub = Some ''g1'', u_email = Some ''a@x.com'', u_device_id = None,
                  u_created_at = 500, u_last_login_at = Some 500\<rparr>],
         refresh_tokens = [\<lparr>rt_id = 1, rt_user_id = 1, rt_token_hash = ''h:rt-1'', rt_expires_at = 1500,
                  rt_revoked_at = None, rt_created_at = 500, rt_created_ip = None,
                  rt_created_user_agent = Some []\<rparr>],
         coins_ledger = []\<rparr>
     = (Inr \<lparr>ro_access_token = ''at'', ro_access_token_expires_in = 900,
            ro_refresh_token = ''rt-2'', ro_refresh_token_expires_in = 1000\<rparr>,
        \<lparr>users = [\<lparr>u_id = 1, u_status = ''user'', u_auth_provider = ''google'',
                  u_google_sub = Some ''g1'', u_email = Some ''a@x.com'', u_device_id = None,
                  u_created_at = 500, u_last_login_at = Some 500\<rparr>],
         refresh_tokens = [\<lparr>rt_id = 1, rt_user_id = 1, rt_token_hash = ''h:rt-1'', rt_expires_at = 1500,
                  rt_revoked_at = Some 700, rt_created_at = 500, rt_created_ip = None,
                  rt_created_user_agent = Some []\<rparr>,
                 \<lparr>rt_id = 2, rt_user_id = 1, rt_token_hash = ''h:rt-2'', rt_expires_at = 1700,
                  rt_revoked_at = None, rt_created_at = 700, rt_created_ip = None,
                  rt_created_user_agent = Some []\<rparr>],
         coins_ledger = []\<rparr>)"
    by (simp add: refresh_token_def refresh_token_check_def refresh_token_revoke_def
          refresh_token_issue_def next_id_def created_user_agent_def Let_def)
  from rotate_exactly_once
    [where ext = "\<lparr>hash_refresh_token = (\<lambda>s. ''h:'' @ s),
        create_access_token = (\<lambda>uid g. (''at'', 900, 0)),
        verify_oauth2_token =
          (\<lambda>t. Some \<lparr>c_sub = Some ''g1'', c_email = Some ''a@x.com'',
                      c_email_verified = Some True\<rparr>)\<rparr>"
       and lower_strip = "\<lambda>s. s"
       and amb = "\<lparr>utcnow = 500, generate_refresh_token = ''rt-1'', refresh_token_expiry = (1500, 1000)\<rparr>"
       and login = "\<lparr>gi_id_token = ''eyJhbGciOiJSUzI1NiJ9.e30.sig'', gi_device_id = None\<rparr>"
       and request = "\<lparr>client_host = None, user_agent = None\<rparr>"
       and db = "\<lparr>users = [], refresh_tokens = [], coins_ledger = []\<rparr>"
       and db_issued = "\<lparr>users = [\<lparr>u_id = 1, u_status = ''user'', u_auth_provider = ''google'',
                  u_google_sub = Some ''g1'', u_email = Some ''a@x.com'', u_device_id = None,
                  u_created_at = 500, u_last_login_at = Some 500\<rparr>],
         refresh_tokens = [\<lparr>rt_id = 1, rt_user_id = 1, rt_token_hash = ''h:rt-1'', rt_expires_at = 1500,
                  rt_revoked_at = None, rt_created_at = 500, rt_created_ip = None,
                  rt_created_user_agent = Some []\<rparr>],
         coins_ledger = []\<rparr>"
       and plain = "''rt-1''"
       and amb_rotate = "\<lparr>utcnow = 700, generate_refresh_token = ''rt-2'', refresh_token_expiry = (1700, 1000)\<rparr>"
       and request_rotate = "\<lparr>client_host = None, user_agent = None\<rparr>"]
    login first
  show ?thesis by simp
qed



section \<open>Overlapping rotations\<close>

text \<open>One caller alone: three steps are the handler.\<close>

lemma refresh_token_is_three_steps:
  "run_schedule ext a b [First, First, First] (Started, pb, db) =
     (case refresh_token ext (call_amb a) (call_payload a) (call_request a) db of
        (Inl e, db') \<Rightarrow> (Raised e, pb, db')
      | (Inr out, db') \<Rightarrow> (Returned out, pb, db'))"
  by (simp add: refresh_token_def Let_def split: sum.splits prod.splits)


lemma step_passed:
  "passed pc \<Longrightarrow> passed (fst (refresh_token_step ext c pc db))
     \<and> steps_left (fst (refresh_token_step ext c pc db)) = steps_left pc - 1"
  by (cases pc) simp_all

lemma first_returns:
  "passed pa \<Longrightarrow> steps_left pa \<le> count_list sched First
     \<Longrightarrow> \<exists>out. fst (run_schedule ext a b sched (pa, pb, db)) = Returned out"
proof (induction sched arbitrary: pa pb db)
  case Nil
  then show ?case by (cases pa) simp_all
next
  case (Cons who sched)
  show ?case
  proof (cases who)
    case First
    obtain pa' db' where st: "refresh_token_step ext a pa db = (pa', db')"
      by (cases "refresh_token_step ext a pa db")
    have "passed pa'" and "steps_left pa' \<le> count_list sched First"
      using step_passed [OF Cons.prems(1), of ext a db] Cons.prems(2) First st by simp_all
    from Cons.IH [OF this, of pb db'] First st show ?thesis by simp
  next
    case Second
    obtain pb' db' where st: "refresh_token_step ext b pb db = (pb', db')"
      by (cases "refresh_token_step ext b pb db")
    from Second Cons.prems have "steps_left pa \<le> count_list sched First" by simp
    from Cons.IH [OF Cons.prems(1) this, of pb' db'] Second st show ?thesis by simp
  qed
qed

lemma second_returns:
  "passed pb \<Longrightarrow> steps_left pb \<le> count_list sched Second
     \<Longrightarrow> \<exists>out. fst (snd (run_schedule ext a b sched (pa, pb, db))) = Returned out"
proof (induction sched arbitrary: pa pb db)
  case Nil
  then show ?case by (cases pb) simp_all
next
  case (Cons who sched)
  show ?case
  proof (cases who)
    case Second
    obtain pb' db' where st: "refresh_token_step ext b pb db = (pb', db')"
      by (cases "refresh_token_step ext b pb db")
    have "passed pb'" and "steps_left pb' \<le> count_list sched Second"
      using step_passed [OF Cons.prems(1), of ext b db] Cons.prems(2) Second st by simp_all
    from Cons.IH [OF this, of pa db'] Second st show ?thesis by simp
  next
    case First
    obtain pa' db' where st: "refresh_token_step ext a pa db = (pa', db')"
      by (cases "refresh_token_step ext a pa db")
    from First Cons.prems have "steps_left pb \<le> count_list sched Second" by simp
    from Cons.IH [OF Cons.prems(1) this, of pa' db'] First st show ?thesis by simp
  qed
qed

lemma step_keeps_revoked:
  assumes "revoked_in h db"
  shows "revoked_in h (snd (refresh_token_step ext c pc db))"
proof (cases pc)
  case Started
  with assms show ?thesis by (simp split: sum.splits prod.splits)
next
  case (Checked old_rt user is_guest)
  from assms obtain r where r: "find (\<lambda>r. rt_token_hash r = h) (refresh_tokens db) = Some r"
      "rt_revoked_at r \<noteq> None"
    by (auto simp add: revoked_in_def split: option.splits)
  let ?r = "if rt_id r = rt_id old_rt then r\<lparr>rt_revoked_at := Some (utcnow (call_amb c))\<rparr> else r"
  have "find (\<lambda>r. rt_token_hash r = h)
          (refresh_tokens (refresh_token_revoke (utcnow (call_amb c)) old_rt db)) = Some ?r"
    using r(1) by (simp add: refresh_token_revoke_def find_revoked_rows)
  moreover have "rt_revoked_at ?r \<noteq> None" using r(2) by simp
  ultimately have "revoked_in h (refresh_token_revoke (utcnow (call_amb c)) old_rt db)"
    by (simp add: revoked_in_def)
  with Checked show ?thesis by simp
next
  case (Revoked user is_guest)
  with assms show ?thesis
    by (auto simp add: revoked_in_def refresh_token_issue_def Let_def find_snoc
          split: option.splits)
next
  case (Returned out)
  with assms show ?thesis by simp
next
  case (Raised e)
  with assms show ?thesis by simp
qed

lemma step_rejects_revoked:
  "revoked_in (hash_refresh_token ext (ri_refresh_token (call_payload c))) db
     \<Longrightarrow> pc = Started \<or> pc = Raised (HTTPException 401 ''Invalid refresh token'')
     \<Longrightarrow> fst (refresh_token_step ext c pc db)
           = Raised (HTTPException 401 ''Invalid refresh token'')"
  by (auto simp add: revoked_in_def refresh_token_check_def split: option.splits)

lemma first_raises:
  "revoked_in (hash_refresh_token ext (ri_refresh_token (call_payload a))) db
     \<Longrightarrow> (pa = Started \<and> 1 \<le> count_list sched First)
           \<or> pa = Raised (HTTPException 401 ''Invalid refresh token'')
     \<Longrightarrow> fst (run_schedule ext a b sched (pa, pb, db))
           = Raised (HTTPException 401 ''Invalid refresh token'')"
proof (induction sched arbitrary: pa pb db)
  case Nil
  then show ?case by auto
next
  case (Cons who sched)
  show ?case
  proof (cases who)
    case First
    obtain pa' db' where st: "refresh_token_step ext a pa db = (pa', db')"
      by (cases "refresh_token_step ext a pa db")
    have "pa' = Raised (HTTPException 401 ''Invalid refresh token'')"
      using step_rejects_revoked [OF Cons.prems(1), of pa] Cons.prems(2) st by auto
    moreover have "revoked_in (hash_refresh_token ext (ri_refresh_token (call_payload a))) db'"
      using step_keeps_revoked [OF Cons.prems(1), of ext a pa] st by simp
    ultimately show ?thesis
      using Cons.IH [of db' pa' pb] First st by simp
  next
    case Second
    obtain pb' db' where st: "refresh_token_step ext b pb db = (pb', db')"
      by (cases "refresh_token_step ext b pb db")
    have "(pa = Started \<and> 1 \<le> count_list sched First)
           \<or> pa = Raised (HTTPException 401 ''Invalid refresh token'')"
      using Second Cons.prems(2) by simp
    moreover have "revoked_in (hash_refresh_token ext (ri_refresh_token (call_payload a))) db'"
      using step_keeps_revoked [OF Cons.prems(1), of ext b pb] st by simp
    ultimately show ?thesis
      using Cons.IH [of db' pa pb'] Second st by simp
  qed
qed

lemma second_raises:
  "revoked_in (hash_refresh_token ext (ri_refresh_token (call_payload b))) db
     \<Longrightarrow> (pb = Started \<and> 1 \<le> count_list sched Second)
           \<or> pb = Raised (HTTPException 401 ''Invalid refresh token'')
     \<Longrightarrow> fst (snd (run_schedule ext a b sched (pa, pb, db)))
           = Raised (HTTPException 401 ''Invalid refresh token'')"
proof (induction sched arbitrary: pa pb db)
  case Nil
  then show ?case by auto
next
  case (Cons who sched)
  show ?case
  proof (cases who)
    case Second
    obtain pb' db' where st: "refresh_token_step ext b pb db = (pb', db')"
      by (cases "refresh_token_step ext b pb db")
    have "pb' = Raised (HTTPException 401 ''Invalid refresh token'')"
      using step_rejects_revoked [OF Cons.prems(1), of pb] Cons.prems(2) st by auto
    moreover have "revoked_in (hash_refresh_token ext (ri_refresh_token (call_payload b))) db'"
      using step_keeps_revoked [OF Cons.prems(1), of ext b pb] st by simp
    ultimately show ?thesis
      using Cons.IH [of db' pb' pa] Second st by simp
  next
    case First
    obtain pa' db' where st: "refresh_token_step ext a pa db = (pa', db')"
      by (cases "refresh_token_step ext a pa db")
    have "(pb = Started \<and> 1 \<le> count_list sched Second)
           \<or> pb = Raised (HTTPException 401 ''Invalid refresh token'')"
      using First Cons.prems(2) by simp
    moreover have "revoked_in (hash_refresh_token ext (ri_refresh_token (call_payload b))) db'"
      using step_keeps_revoked [OF Cons.prems(1), of ext a pa] st by simp
    ultimately show ?thesis
      using Cons.IH [of db' pb pa'] First st by simp
  qed
qed


text \<open>
  Claim C1, as stated, fails. Two calls present the plaintext \<open>rt-1\<close> of one usable row;
  both run their test before either commits the revocation. Both return a new token pair
  (\<open>rt-2\<close> and \<open>rt-3\<close>), and the second revocation overwrites \<^verbatim>\<open>revoked_at\<close> of the first:
  the update is by primary key, not guarded by \<^verbatim>\<open>revoked_at\<close> being null, and it is committed
  on its own before the replacement row is created.
\<close>

theorem racing_rotations_counterexample:
  "run_schedule
     \<lparr>hash_refresh_token = (\<lambda>s. ''h:'' @ s),
        create_access_token = (\<lambda>uid g. (''at'', 900, 0)),
        verify_oauth2_token = (\<lambda>t. None)\<rparr>
     \<lparr>call_amb = \<lparr>utcnow = 700, generate_refresh_token = ''rt-2'',
                     refresh_token_expiry = (1700, 1000)\<rparr>,
        call_payload = \<lparr>ri_refresh_token = ''rt-1''\<rparr>,
        call_request = \<lparr>client_host = None, user_agent = None\<rparr>\<rparr>
     \<lparr>call_amb = \<lparr>utcnow = 701, generate_refresh_token = ''rt-3'',
                     refresh_token_expiry = (1701, 1000)\<rparr>,
        call_payload = \<lparr>ri_refresh_token = ''rt-1''\<rparr>,
        call_request = \<lparr>client_host = None, user_agent = None\<rparr>\<rparr>
     [First, Second, First, First, Second, Second]
     (Started, Started,
      \<lparr>users = [\<lparr>u_id = 1, u_status = ''user'', u_auth_provider = ''google'',
                  u_google_sub = Some ''g1'', u_email = Some ''a@x.com'', u_device_id = None,
                  u_created_at = 500, u_last_login_at = Some 500\<rparr>],
         refresh_tokens = [\<lparr>rt_id = 1, rt_user_id = 1, rt_token_hash = ''h:rt-1'', rt_expires_at = 1500,
                  rt_revoked_at = None, rt_created_at = 500, rt_created_ip = None,
                  rt_created_user_agent = Some []\<rparr>],
         coins_ledger = []\<rparr>)
   = (Returned \<lparr>ro_access_token = ''at'', ro_access_token_expires_in = 900,
            ro_refresh_token = ''rt-2'', ro_refresh_token_expires_in = 1000\<rparr>,
      Returned \<lparr>ro_access_token = ''at'', ro_access_token_expires_in = 900,
            ro_refresh_token = ''rt-3'', ro_refresh_token_expires_in = 1000\<rparr>,
      \<lparr>users = [\<lparr>u_id = 1, u_status = ''user'', u_auth_provider = ''google'',
                  u_google_sub = Some ''g1'', u_email = Some ''a@x.com'', u_device_id = None,
                  u_created_at = 500, u_last_login_at = Some 500\<rparr>],
         refresh_tokens = [\<lparr>rt_id = 1, rt_user_id = 1, rt_token_hash = ''h:rt-1'', rt_expires_at = 1500,
                  rt_revoked_at = Some 701, rt_created_at = 500, rt_created_ip = None,
                  rt_created_user_agent = Some []\<rparr>,
                 \<lparr>rt_id = 2, rt_user_id = 1, rt_token_hash = ''h:rt-2'', rt_expires_at = 1700,
                  rt_revoked_at = None, rt_created_at = 700, rt_created_ip = None,
                  rt_created_user_agent = Some []\<rparr>,
                 \<lparr>rt_id = 3, rt_user_id = 1, rt_token_hash = ''h:rt-3'', rt_expires_at = 1701,
                  rt_revoked_at = None, rt_created_at = 701, rt_created_ip = None,
                  rt_created_user_agent = Some []\<rparr>],
         coins_ledger = []\<rparr>)"
  by (simp add: refresh_token_check_def refresh_token_revoke_def refresh_token_issue_def
        next_id_def created_user_agent_def Let_def)


text \<open>
  Claim C1, amended. Two calls present the same plaintext of a usable row whose account
  exists, and each runs its three steps in some interleaving. When one call runs its test
  and its revocation before the other call's test, exactly that call returns a new token
  pair and the other raises \<open>HTTPException 401 ''Invalid refresh token''\<close>. When both tests
  run before either revocation, both calls return a new token pair.
\<close>

theorem racing_rotations:
  assumes found: "find (\<lambda>r. rt_token_hash r = hash_refresh_token ext plain) (refresh_tokens db)
                    = Some old_rt"
      and active: "rt_revoked_at old_rt = None"
      and live_a: "utcnow (call_amb a) < rt_expires_at old_rt"
      and live_b: "utcnow (call_amb b) < rt_expires_at old_rt"
      and owner: "find (\<lambda>u. u_id u = rt_user_id old_rt) (users db) = Some user"
      and same: "ri_refresh_token (call_payload a) = plain"
                "ri_refresh_token (call_payload b) = plain"
      and complete: "3 \<le> count_list sched First" "3 \<le> count_list sched Second"
  shows "(take 2 sched = [First, First] \<longrightarrow>
            (\<exists>out. fst (run_schedule ext a b sched (Started, Started, db)) = Returned out)
          \<and> fst (snd (run_schedule ext a b sched (Started, Started, db)))
              = Raised (HTTPException 401 ''Invalid refresh token''))
       \<and> (take 2 sched = [Second, Second] \<longrightarrow>
            fst (run_schedule ext a b sched (Started, Started, db))
              = Raised (HTTPException 401 ''Invalid refresh token'')
          \<and> (\<exists>out. fst (snd (run_schedule ext a b sched (Started, Started, db)))
                      = Returned out))
       \<and> (take 2 sched = [First, Second] \<or> take 2 sched = [Second, First] \<longrightarrow>
            (\<exists>out. fst (run_schedule ext a b sched (Started, Started, db)) = Returned out)
          \<and> (\<exists>out. fst (snd (run_schedule ext a b sched (Started, Started, db)))
                      = Returned out))"
proof -
  let ?g = "u_status user = ''guest''"
  let ?E = "HTTPException 401 ''Invalid refresh token''"
  have chk_a: "refresh_token_step ext a Started db = (Checked old_rt user ?g, db)"
    using found active live_a owner same(1) by (simp add: refresh_token_check_def)
  have chk_b: "refresh_token_step ext b Started db = (Checked old_rt user ?g, db)"
    using found active live_b owner same(2) by (simp add: refresh_token_check_def)
  have rev: "\<And>now. revoked_in (hash_refresh_token ext plain) (refresh_token_revoke now old_rt db)"
    using found by (simp add: revoked_in_def refresh_token_revoke_def find_revoked_rows)
  obtain x y rest where sched: "sched = x # y # rest"
    using complete(1) by (cases sched; cases "tl sched") (auto split: if_splits)
  have ff: "x = First \<Longrightarrow> y = First \<Longrightarrow>
      (\<exists>out. fst (run_schedule ext a b sched (Started, Started, db)) = Returned out)
      \<and> fst (snd (run_schedule ext a b sched (Started, Started, db))) = Raised ?E"
  proof -
    assume xy: "x = First" "y = First"
    let ?db = "refresh_token_revoke (utcnow (call_amb a)) old_rt db"
    have run: "run_schedule ext a b sched (Started, Started, db)
                 = run_schedule ext a b rest (Revoked user ?g, Started, ?db)"
      using sched xy chk_a by simp
    have "1 \<le> count_list rest First" "1 \<le> count_list rest Second"
      using complete sched xy by simp_all
    then show ?thesis
      using run first_returns [of "Revoked user ?g" rest ext a b Started ?db]
        second_raises [of ext b ?db Started rest a "Revoked user ?g"] rev same(2)
      by simp
  qed
  have ss: "x = Second \<Longrightarrow> y = Second \<Longrightarrow>
      fst (run_schedule ext a b sched (Started, Started, db)) = Raised ?E
      \<and> (\<exists>out. fst (snd (run_schedule ext a b sched (Started, Started, db))) = Returned out)"
  proof -
    assume xy: "x = Second" "y = Second"
    let ?db = "refresh_token_revoke (utcnow (call_amb b)) old_rt db"
    have run: "run_schedule ext a b sched (Started, Started, db)
                 = run_schedule ext a b rest (Started, Revoked user ?g, ?db)"
      using sched xy chk_b by simp
    have "1 \<le> count_list rest First" "1 \<le> count_list rest Second"
      using complete sched xy by simp_all
    then show ?thesis
      using run second_returns [of "Revoked user ?g" rest ext a b Started ?db]
        first_raises [of ext a ?db Started rest b "Revoked user ?g"] rev same(1)
      by simp
  qed
  have both: "x \<noteq> y \<Longrightarrow>
      (\<exists>out. fst (run_schedule ext a b sched (Started, Started, db)) = Returned out)
      \<and> (\<exists>out. fst (snd (run_schedule ext a b sched (Started, Started, db))) = Returned out)"
  proof -
    assume xy: "x \<noteq> y"
    have run: "run_schedule ext a b sched (Started, Started, db)
                 = run_schedule ext a b rest
                     (Checked old_rt user ?g, Checked old_rt user ?g, db)"
      using sched xy chk_a chk_b by (cases x; cases y) simp_all
    have "2 \<le> count_list rest First" "2 \<le> count_list rest Second"
      using complete sched xy by (cases x; cases y; simp)+
    then show ?thesis
      using run
        first_returns [of "Checked old_rt user ?g" rest ext a b "Checked old_rt user ?g" db]
        second_returns [of "Checked old_rt user ?g" rest ext a b "Checked old_rt user ?g" db]
      by simp
  qed
  from ff ss both sched show ?thesis by auto
qed


theorem racing_rotations_witness:
  "(\<exists>out. fst (run_schedule
       \<lparr>hash_refresh_token = (\<lambda>s. ''h:'' @ s),
        create_access_token = (\<lambda>uid g. (''at'', 900, 0)),
        verify_oauth2_token = (\<lambda>t. None)\<rparr>
       \<lparr>call_amb = \<lparr>utcnow = 700, generate_refresh_token = ''rt-2'',
                     refresh_token_expiry = (1700, 1000)\<rparr>,
        call_payload = \<lparr>ri_refresh_token = ''rt-1''\<rparr>,
        call_request = \<lparr>client_host = None, user_agent = None\<rparr>\<rparr>
       \<lparr>call_amb = \<lparr>utcnow = 701, generate_refresh_token = ''rt-3'',
                     refresh_token_expiry = (1701, 1000)\<rparr>,
        call_payload = \<lparr>ri_refresh_token = ''rt-1''\<rparr>,
        call_request = \<lparr>client_host = None, user_agent = None\<rparr>\<rparr>
       [First, First, First, Second, Second, Second]
       (Started, Started,
        \<lparr>users = [\<lparr>u_id = 1, u_status = ''user'', u_auth_provider = ''google'',
                  u_google_sub = Some ''g1'', u_email = Some ''a@x.com'', u_device_id = None,
                  u_created_at = 500, u_last_login_at = Some 500\<rparr>],
         refresh_tokens = [\<lparr>rt_id = 1, rt_user_id = 1, rt_token_hash = ''h:rt-1'', rt_expires_at = 1500,
                  rt_revoked_at = None, rt_created_at = 500, rt_created_ip = None,
                  rt_created_user_agent = Some []\<rparr>],
         coins_ledger = []\<rparr>)) = Returned out)
   \<and> fst (snd (run_schedule
       \<lparr>hash_refresh_token = (\<lambda>s. ''h:'' @ s),
        create_access_token = (\<lambda>uid g. (''at'', 900, 0)),
        verify_oauth2_token = (\<lambda>t. None)\<rparr>
       \<lparr>call_amb = \<lparr>utcnow = 700, generate_refresh_token = ''rt-2'',
                     refresh_token_expiry = (1700, 1000)\<rparr>,
        call_payload = \<lparr>ri_refresh_token = ''rt-1''\<rparr>,
        call_request = \<lparr>client_host = None, user_agent = None\<rparr>\<rparr>
       \<lparr>call_amb = \<lparr>utcnow = 701, generate_refresh_token = ''rt-3'',
                     refresh_token_expiry = (1701, 1000)\<rparr>,
        call_payload = \<lparr>ri_refresh_token = ''rt-1''\<rparr>,
        call_request = \<lparr>client_host = None, user_agent = None\<rparr>\<rparr>
       [First, First, First, Second, Second, Second]
       (Started, Started,
        \<lparr>users = [\<lparr>u_id = 1, u_status = ''user'', u_auth_provider = ''google'',
                  u_google_sub = Some ''g1'', u_email = Some ''a@x.com'', u_device_id = None,
                  u_created_at = 500, u_last_login_at = Some 500\<rparr>],
         refresh_tokens = [\<lparr>rt_id = 1, rt_user_id = 1, rt_token_hash = ''h:rt-1'', rt_expires_at = 1500,
                  rt_revoked_at = None, rt_created_at = 500, rt_created_ip = None,
                  rt_created_user_agent = Some []\<rparr>],
         coins_ledger = []\<rparr>))) = Raised (HTTPException 401 ''Invalid refresh token'')"
  using racing_rotations
    [where ext = "\<lparr>hash_refresh_token = (\<lambda>s. ''h:'' @ s),
        create_access_token = (\<lambda>uid g. (''at'', 900, 0)),
        verify_oauth2_token = (\<lambda>t. None)\<rparr>"
       and a = "\<lparr>call_amb = \<lparr>utcnow = 700, generate_refresh_token = ''rt-2'',
                     refresh_token_expiry = (1700, 1000)\<rparr>,
        call_payload = \<lparr>ri_refresh_token = ''rt-1''\<rparr>,
        call_request = \<lparr>client_host = None, user_agent = None\<rparr>\<rparr>"
       and b = "\<lparr>call_amb = \<lparr>utcnow = 701, generate_refresh_token = ''rt-3'',
                     refresh_token_expiry = (1701, 1000)\<rparr>,
        call_payload = \<lparr>ri_refresh_token = ''rt-1''\<rparr>,
        call_request = \<lparr>client_host = None, user_agent = None\<rparr>\<rparr>"
       and plain = "''rt-1''"
       and db = "\<lparr>users = [\<lparr>u_id = 1, u_status = ''user'', u_auth_provider = ''google'',
                  u_google_sub = Some ''g1'', u_email = Some ''a@x.com'', u_device_id = None,
                  u_created_at = 500, u_last_login_at = Some 500\<rparr>],
         refresh_tokens = [\<lparr>rt_id = 1, rt_user_id = 1, rt_token_hash = ''h:rt-1'', rt_expires_at = 1500,
                  rt_revoked_at = None, rt_created_at = 500, rt_created_ip = None,
                  rt_created_user_agent = Some []\<rparr>],
         coins_ledger = []\<rparr>"
       and old_rt = "\<lparr>rt_id = 1, rt_user_id = 1, rt_token_hash = ''h:rt-1'', rt_expires_at = 1500,
                  rt_revoked_at = None, rt_created_at = 500, rt_created_ip = None,
                  rt_created_user_agent = Some []\<rparr>"
       and user = "\<lparr>u_id = 1, u_status = ''user'', u_auth_provider = ''google'',
                  u_google_sub = Some ''g1'', u_email = Some ''a@x.com'', u_device_id = None,
                  u_created_at = 500, u_last_login_at = Some 500\<rparr>"
       and sched = "[First, First, First, Second, Second, Second]"]
  by simp


end
